theory Spec2Isabelle
  imports Complex_Main
begin

section \<open>Python strings and sequences\<close>

text \<open>
  A Python \<open>str\<close> is a sequence of Unicode code points and \<open>len\<close> counts code points.
  A string is therefore modelled as the list of its code points; \<open>lit\<close> turns a literal of
  the source into that list.
\<close>

type_synonym pystr = "nat list"

definition lit :: "string \<Rightarrow> pystr" where
  "lit s = map of_char s"

text \<open>
  \<open>str.isspace\<close> of one character: the code points that CPython classifies as whitespace
  (bidirectional class WS, B or S, or general category Zs).
\<close>

definition py_isspace :: "nat \<Rightarrow> bool" where
  "py_isspace c =
     ((9 \<le> c \<and> c \<le> 13) \<or> (28 \<le> c \<and> c \<le> 32) \<or> c = 133 \<or> c = 160 \<or> c = 5760
      \<or> (8192 \<le> c \<and> c \<le> 8202) \<or> c = 8232 \<or> c = 8233 \<or> c = 8239 \<or> c = 8287
      \<or> c = 12288)"

text \<open>\<open>s.strip()\<close>: whitespace removed at both ends.\<close>

definition py_strip :: "pystr \<Rightarrow> pystr" where
  "py_strip s = rev (dropWhile py_isspace (rev (dropWhile py_isspace s)))"

text \<open>
  The index adjustment of Python slices: a negative index counts from the end, and the
  result is clamped to \<open>0 .. len\<close>.
\<close>

definition py_index :: "nat \<Rightarrow> int \<Rightarrow> nat" where
  "py_index n i = (if i < 0 then nat (max 0 (i + int n)) else min (nat i) n)"

text \<open>\<open>xs[i:j]\<close>.\<close>

definition py_slice :: "'a list \<Rightarrow> int \<Rightarrow> int \<Rightarrow> 'a list" where
  "py_slice xs i j =
     (let a = py_index (length xs) i; b = py_index (length xs) j
      in take (b - a) (drop a xs))"

text \<open>
  \<open>s.rfind(ch, i, j)\<close> for a one-character \<open>ch\<close>: the highest index in \<open>s[i:j]\<close> that
  holds \<open>ch\<close>, or \<open>-1\<close>.
\<close>

definition py_rfind :: "pystr \<Rightarrow> nat \<Rightarrow> int \<Rightarrow> int \<Rightarrow> int" where
  "py_rfind s ch i j =
     (let a = py_index (length s) i; b = py_index (length s) j
      in case filter (\<lambda>k. s ! k = ch) [a ..< b] of
           [] \<Rightarrow> - 1
         | k # ks \<Rightarrow> int (last (k # ks)))"

section \<open>DocumentChunker\<close>

record chunk_metadata =
  md_chunk_size :: nat
  md_source :: pystr
  md_total_chunks :: nat

record chunk =
  c_text :: pystr
  start_pos :: int
  end_pos :: int
  chunk_id :: int
  metadata :: chunk_metadata

text \<open>The attributes of a \<open>DocumentChunker\<close> that \<open>chunk_text\<close> reads.\<close>

record document_chunker =
  chunk_size :: int
  chunk_overlap :: int

text \<open>\<open>DocumentChunker()\<close>: the defaults of \<open>__init__\<close>.\<close>

definition default_chunker :: document_chunker where
  "default_chunker = \<lparr>chunk_size = 1000, chunk_overlap = 200\<rparr>"

text \<open>
  The end of the chunk that starts at \<open>start\<close>: \<open>start + chunk_size\<close>, moved back to just
  after the last full stop of the final 200 characters when the chunk does not reach the
  end of the text.
\<close>

definition chunk_end :: "document_chunker \<Rightarrow> pystr \<Rightarrow> int \<Rightarrow> int" where
  "chunk_end self txt start =
     (let end' = start + chunk_size self
      in if end' < int (length txt)
         then (let search_start = max start (end' - 200);
                   sentence_end = py_rfind txt (of_char CHR ''.'') search_start end'
               in if sentence_end > start then sentence_end + 1 else end')
         else end')"

text \<open>
  The chunk list and the next \<open>chunk_id\<close> after the body of one iteration: the stripped
  slice is appended when it is not empty (\<open>total_chunks\<close> is 0 until the final pass).
\<close>

definition emit_chunk ::
  "pystr \<Rightarrow> pystr \<Rightarrow> int \<Rightarrow> int \<Rightarrow> int \<Rightarrow> chunk list \<Rightarrow> chunk list \<times> int" where
  "emit_chunk txt source start end' cid chunks =
     (let chunk_text = py_strip (py_slice txt start end')
      in if chunk_text \<noteq> []
         then (chunks @ [\<lparr>c_text = chunk_text, start_pos = start, end_pos = end', chunk_id = cid,
                           metadata = \<lparr>md_chunk_size = length chunk_text, md_source = source,
                                       md_total_chunks = 0\<rparr>\<rparr>],
               cid + 1)
         else (chunks, cid))"

text \<open>
  The \<open>while start < len(text)\<close> loop. Nothing in the source bounds the number of
  iterations for an arbitrary configuration, so the loop is a partial function:
  \<open>None\<close> is a run that never leaves the loop.
\<close>

partial_function (option) chunk_loop ::
  "document_chunker \<Rightarrow> pystr \<Rightarrow> pystr \<Rightarrow> int \<Rightarrow> int \<Rightarrow> chunk list \<Rightarrow> chunk list option" where
  "chunk_loop self txt source start cid chunks =
     (if start < int (length txt)
      then (case emit_chunk txt source start (chunk_end self txt start) cid chunks of
              (chunks', cid') \<Rightarrow>
                if chunk_end self txt start - chunk_overlap self \<ge> int (length txt)
                then Some chunks'
                else chunk_loop self txt source
                       (chunk_end self txt start - chunk_overlap self) cid' chunks')
      else Some chunks)"

text \<open>The final pass that writes the number of chunks into every chunk.\<close>

definition set_total_chunks :: "chunk list \<Rightarrow> chunk list" where
  "set_total_chunks chunks =
     map (\<lambda>c. c\<lparr>metadata := (metadata c)\<lparr>md_total_chunks := length chunks\<rparr>\<rparr>) chunks"

definition chunk_text :: "document_chunker \<Rightarrow> pystr \<Rightarrow> pystr \<Rightarrow> chunk list option" where
  "chunk_text self txt source =
     (if py_strip txt = [] then Some []
      else map_option set_total_chunks (chunk_loop self txt source 0 0 []))"

section \<open>More of Python's strings\<close>

definition nl :: pystr where
  "nl = [10]"

text \<open>\<open>s.split()\<close>: the maximal runs of characters that are not whitespace.\<close>

fun split_from :: "pystr \<Rightarrow> pystr \<Rightarrow> pystr list" where
  "split_from cur [] = (if cur = [] then [] else [cur])"
| "split_from cur (c # cs) =
     (if py_isspace c
      then (if cur = [] then split_from [] cs else cur # split_from [] cs)
      else split_from (cur @ [c]) cs)"

definition py_split :: "pystr \<Rightarrow> pystr list" where
  "py_split s = split_from [] s"

text \<open>\<open>sep.join(ws)\<close>.\<close>

fun py_join :: "pystr \<Rightarrow> pystr list \<Rightarrow> pystr" where
  "py_join sep [] = []"
| "py_join sep [w] = w"
| "py_join sep (w # v # ws) = w @ sep @ py_join sep (v # ws)"

text \<open>\<open>str(n)\<close> of a length: its decimal digits.\<close>

fun str_nat :: "nat \<Rightarrow> pystr" where
  "str_nat n = (if n < 10 then [48 + n] else str_nat (n div 10) @ [48 + n mod 10])"

declare str_nat.simps [simp del]

text \<open>\<open>range(a, b, k)\<close> for a positive step.\<close>

definition py_range :: "nat \<Rightarrow> nat \<Rightarrow> nat \<Rightarrow> nat list" where
  "py_range a b k = map (\<lambda>j. a + j * k) [0 ..< (b - a + k - 1) div k]"

section \<open>QueryHandler: data\<close>

text \<open>An exception, with the text that \<open>str(e)\<close> gives.\<close>

datatype py_exception = PyException (str_of: pystr)

text \<open>
  A dictionary returned by \<open>search_similar\<close>, as far as the handler reads it. \<open>None\<close> is
  an absent key; \<open>r_filename\<close> is \<open>metadata['filename']\<close> and is \<open>None\<close> when either key
  is absent. A distance that is present is a number.
\<close>

record retrieved_chunk =
  r_text :: "pystr option"
  r_filename :: "pystr option"
  distance :: "real option"

text \<open>An entry of \<open>self.conversation_history\<close>.\<close>

record history_entry =
  message :: pystr
  role :: pystr
  user_id :: "pystr option"
  timestamp :: pystr

text \<open>An entry of the history that a caller passes in; \<open>None\<close> is an absent key.\<close>

record caller_entry =
  ce_role :: "pystr option"
  ce_message :: "pystr option"

text \<open>
  The dictionary that \<open>process_query\<close> returns. The success result has no \<open>error\<close> key
  and the error result has no \<open>context_chunks_used\<close> key.
\<close>

record query_result =
  response :: pystr
  query :: pystr
  qr_user_id :: "pystr option"
  qr_timestamp :: pystr
  context_chunks_used :: "nat option"
  error :: "pystr option"
  status :: pystr

text \<open>
  A dictionary sent over the WebSocket (the argument of \<open>json.dumps\<close>): it has either a
  \<open>message\<close> or a \<open>content\<close> key.
\<close>

record notification =
  n_type :: pystr
  n_message :: "pystr option"
  n_content :: "pystr option"
  n_timestamp :: pystr

text \<open>
  What iterating over a provider stream yields: a delta, whose content may be \<open>None\<close>,
  or an exception raised by the iteration.
\<close>

datatype stream_item = Delta "pystr option" | StreamFailure py_exception

text \<open>
  The generation provider as the handler uses it, as a function of the prompt (the model
  name, the system prompt and the sampling parameters are the same in every call).
  \<open>completion\<close> is \<open>chat.completions.create(...)\<close> followed by
  \<open>.choices[0].message.content\<close>; \<open>completion_stream\<close> is the call with \<open>stream=True\<close>.
\<close>

record provider =
  completion :: "pystr \<Rightarrow> py_exception + pystr option"
  completion_stream :: "pystr \<Rightarrow> py_exception + stream_item list"

text \<open>
  Everything the handler reads and does not change: \<open>now k\<close> is the text of the
  \<open>k\<close>-th reading of \<open>datetime.now().isoformat()\<close>, \<open>search_similar\<close> is the vector
  database's method, \<open>openai_client\<close> is the attribute set by \<open>_initialize_openai\<close>,
  \<open>title\<close> is \<open>str.title\<close>, and \<open>transport k\<close> is the exception that the \<open>k\<close>-th call of
  \<open>websocket.send_text\<close> raises, if it raises.
\<close>

record env =
  now :: "nat \<Rightarrow> pystr"
  search_similar :: "pystr \<Rightarrow> nat \<Rightarrow> py_exception + retrieved_chunk list"
  openai_client :: "provider option"
  title :: "pystr \<Rightarrow> pystr"
  transport :: "nat \<Rightarrow> py_exception option"

text \<open>
  What changes: the handler's history, the number of clock readings, the notifications
  delivered to the client (oldest first) and the number of calls of \<open>send_text\<close>.
\<close>

record world =
  conversation_history :: "history_entry list"
  clock :: nat
  sent :: "notification list"
  attempts :: nat

section \<open>Computations that change the world and may raise\<close>

type_synonym 'a io = "world \<Rightarrow> (py_exception + 'a) \<times> world"

definition ret :: "'a \<Rightarrow> 'a io" where
  "ret x w = (Inr x, w)"

definition raise :: "py_exception \<Rightarrow> 'a io" where
  "raise e w = (Inl e, w)"

definition bind_io :: "'a io \<Rightarrow> ('a \<Rightarrow> 'b io) \<Rightarrow> 'b io" where
  "bind_io m f w = (case m w of (Inl e, w') \<Rightarrow> (Inl e, w') | (Inr x, w') \<Rightarrow> f x w')"

text \<open>\<open>try: m except Exception as e: h e\<close>.\<close>

definition try_except :: "'a io \<Rightarrow> (py_exception \<Rightarrow> 'a io) \<Rightarrow> 'a io" where
  "try_except m h w = (case m w of (Inl e, w') \<Rightarrow> h e w' | (Inr x, w') \<Rightarrow> (Inr x, w'))"

definition of_result :: "py_exception + 'a \<Rightarrow> 'a io" where
  "of_result r w = (r, w)"

text \<open>\<open>for x in xs: body x\<close>.\<close>

fun for_each :: "'a list \<Rightarrow> ('a \<Rightarrow> unit io) \<Rightarrow> unit io" where
  "for_each [] body w = (Inr (), w)"
| "for_each (x # xs) body w =
     (case body x w of (Inl e, w') \<Rightarrow> (Inl e, w') | (Inr u, w') \<Rightarrow> for_each xs body w')"

definition datetime_now :: "env \<Rightarrow> pystr io" where
  "datetime_now env w = (Inr (now env (clock w)), w\<lparr>clock := Suc (clock w)\<rparr>)"

text \<open>\<open>ConnectionManager.send_personal_message\<close>: \<open>websocket.send_text\<close>.\<close>

definition send_personal_message :: "env \<Rightarrow> notification \<Rightarrow> unit io" where
  "send_personal_message env msg w =
     (case transport env (attempts w) of
        Some e \<Rightarrow> (Inl e, w\<lparr>attempts := Suc (attempts w)\<rparr>)
      | None \<Rightarrow> (Inr (), w\<lparr>sent := sent w @ [msg], attempts := Suc (attempts w)\<rparr>))"

text \<open>
  Building a dictionary with \<open>type\<close>, \<open>message\<close> and \<open>timestamp\<close> (which reads the clock)
  and sending it; the same with \<open>content\<close> in place of \<open>message\<close>.
\<close>

definition send_message :: "env \<Rightarrow> pystr \<Rightarrow> pystr \<Rightarrow> unit io" where
  "send_message env typ msg =
     bind_io (datetime_now env) (\<lambda>ts.
       send_personal_message env
         \<lparr>n_type = typ, n_message = Some msg, n_content = None, n_timestamp = ts\<rparr>)"

definition send_content :: "env \<Rightarrow> pystr \<Rightarrow> pystr \<Rightarrow> unit io" where
  "send_content env typ content =
     bind_io (datetime_now env) (\<lambda>ts.
       send_personal_message env
         \<lparr>n_type = typ, n_message = None, n_content = Some content, n_timestamp = ts\<rparr>)"

section \<open>QueryHandler: operations\<close>

definition apos :: pystr where
  "apos = [39]"

text \<open>
  \<open>_add_to_history\<close>: the entry is appended, and only the last 20 entries are kept
  (\<open>self.conversation_history[-20:]\<close>).
\<close>

definition add_to_history :: "env \<Rightarrow> pystr \<Rightarrow> pystr \<Rightarrow> pystr option \<Rightarrow> unit io" where
  "add_to_history env msg rl uid =
     bind_io (datetime_now env) (\<lambda>ts w.
       let h = conversation_history w
                 @ [\<lparr>message = msg, role = rl, user_id = uid, timestamp = ts\<rparr>]
       in (Inr (),
           w\<lparr>conversation_history :=
                (if length h > 20 then py_slice h (- 20) (int (length h)) else h)\<rparr>))"

text \<open>The truth value of an optional string: \<open>None\<close> and the empty string are false.\<close>

definition truthy :: "pystr option \<Rightarrow> bool" where
  "truthy uid = (case uid of None \<Rightarrow> False | Some u \<Rightarrow> u \<noteq> [])"

definition get_conversation_history :: "world \<Rightarrow> pystr option \<Rightarrow> history_entry list" where
  "get_conversation_history w uid =
     (if truthy uid then filter (\<lambda>entry. user_id entry = uid) (conversation_history w)
      else conversation_history w)"

text \<open>
  \<open>_get_relevant_context\<close>: the search result filtered by
  \<open>chunk.get('distance', 1.0) < 0.8\<close>; an exception of the search gives the empty list.
\<close>

definition get_relevant_context :: "env \<Rightarrow> pystr \<Rightarrow> nat \<Rightarrow> retrieved_chunk list" where
  "get_relevant_context env q n_results =
     (case search_similar env q n_results of
        Inr context_chunks \<Rightarrow>
          filter (\<lambda>chunk. (case distance chunk of None \<Rightarrow> 1.0 | Some d \<Rightarrow> d) < 0.8)
            context_chunks
      | Inl e \<Rightarrow> [])"

definition build_context_text :: "retrieved_chunk list \<Rightarrow> pystr" where
  "build_context_text context_chunks =
     (if context_chunks = [] then lit ''No relevant context found in the uploaded documents.''
      else py_join (nl @ nl)
             (map (\<lambda>(i, chunk).
                     lit ''Context '' @ str_nat i @ lit '' (from ''
                     @ (case r_filename chunk of None \<Rightarrow> lit ''Unknown source'' | Some f \<Rightarrow> f)
                     @ lit ''):'' @ nl
                     @ (case r_text chunk of None \<Rightarrow> [] | Some t \<Rightarrow> t))
                  (zip [1 ..< Suc (length context_chunks)] context_chunks)))"

definition build_conversation_history :: "env \<Rightarrow> caller_entry list option \<Rightarrow> pystr" where
  "build_conversation_history env conversation_history' =
     (case conversation_history' of
        None \<Rightarrow> lit ''No previous conversation.''
      | Some entries \<Rightarrow>
          if entries = [] then lit ''No previous conversation.''
          else py_join nl
                 (map (\<lambda>entry.
                         title env (case ce_role entry of None \<Rightarrow> lit ''user'' | Some r \<Rightarrow> r)
                         @ lit '': ''
                         @ (case ce_message entry of None \<Rightarrow> [] | Some m \<Rightarrow> m))
                      (py_slice entries (- 5) (int (length entries)))))"

text \<open>\<open>PromptTemplates.create_tutor_prompt\<close>.\<close>

definition create_tutor_prompt :: "pystr \<Rightarrow> pystr \<Rightarrow> pystr \<Rightarrow> pystr" where
  "create_tutor_prompt q context' history_text =
     py_join nl
       ((if history_text \<noteq> [] \<and> history_text \<noteq> lit ''No previous conversation.''
         then [lit ''Previous conversation:'' @ nl @ history_text @ nl] else [])
        @ (if context' \<noteq> []
              \<and> context' \<noteq> lit ''No relevant context found in the uploaded documents.''
           then [lit ''Relevant course material:'' @ nl @ context' @ nl] else [])
        @ [lit ''Student's question: '' @ q]
        @ [nl @ lit ''Please provide a helpful, educational response that addresses the student's question. Use the provided context when relevant, and explain concepts clearly.''])"

text \<open>\<open>_generate_mock_response\<close>, with its local variables as definitions.\<close>

definition context_info :: "retrieved_chunk list \<Rightarrow> pystr" where
  "context_info context_chunks =
     (if context_chunks \<noteq> []
      then lit ''I found '' @ str_nat (length context_chunks)
           @ lit '' relevant sections in your course materials that address this topic.''
      else lit ''I don't have specific information about this topic in your uploaded materials.'')"

definition mock_responses :: "pystr \<Rightarrow> pystr \<Rightarrow> pystr list" where
  "mock_responses q info =
     [lit ''Great question about '' @ apos @ q @ apos @ lit ''! '' @ info
        @ lit '' Let me explain this concept based on what I know.'',
      lit ''Excellent question! '' @ apos @ q @ apos @ lit '' is an important topic. '' @ info
        @ lit '' Here's what I can tell you about it.'',
      lit ''I'd be happy to help with '' @ apos @ q @ apos @ lit ''. '' @ info
        @ lit '' This is a fundamental concept worth understanding.'',
      lit ''Interesting question about '' @ apos @ q @ apos @ lit ''! '' @ info
        @ lit '' Let me break this down for you.'']"

definition educational_additions :: "pystr list" where
  "educational_additions =
     [nl @ nl @ lit ''This concept is important because it forms the foundation for more advanced topics.'',
      nl @ nl @ lit ''Understanding this will help you with related concepts in your studies.'',
      nl @ nl @ lit ''This topic often appears in exams and practical applications.'',
      nl @ nl @ lit ''Mastering this concept will make future learning much easier.'']"

definition generate_mock_response :: "pystr \<Rightarrow> retrieved_chunk list \<Rightarrow> pystr" where
  "generate_mock_response q context_chunks =
     (let responses = mock_responses q (context_info context_chunks);
          response_index = length q mod length responses;
          base_response = responses ! response_index;
          addition_index = length q mod length educational_additions
      in base_response @ educational_additions ! addition_index)"

text \<open>
  \<open>_generate_llm_response\<close>. Without a client the answer is the mock response; so it is
  when the provider raises, or returns no content (\<open>.strip()\<close> of \<open>None\<close> raises
  AttributeError inside the same \<open>try\<close>).
\<close>

definition generate_llm_response ::
  "env \<Rightarrow> pystr \<Rightarrow> retrieved_chunk list \<Rightarrow> caller_entry list option \<Rightarrow> pystr" where
  "generate_llm_response env q context_chunks conversation_history' =
     (case openai_client env of
        None \<Rightarrow> generate_mock_response q context_chunks
      | Some client \<Rightarrow>
          (case completion client
                  (create_tutor_prompt q (build_context_text context_chunks)
                     (build_conversation_history env conversation_history')) of
             Inr (Some content) \<Rightarrow> py_strip content
           | Inr None \<Rightarrow> generate_mock_response q context_chunks
           | Inl e \<Rightarrow> generate_mock_response q context_chunks))"

definition process_query ::
  "env \<Rightarrow> pystr \<Rightarrow> pystr option \<Rightarrow> caller_entry list option \<Rightarrow> query_result io" where
  "process_query env q uid conversation_history' =
     try_except
       (bind_io (add_to_history env q (lit ''user'') uid) (\<lambda>_.
        bind_io (ret (get_relevant_context env q 5)) (\<lambda>context_chunks.
        bind_io (ret (generate_llm_response env q context_chunks conversation_history'))
          (\<lambda>response'.
        bind_io (add_to_history env response' (lit ''assistant'') uid) (\<lambda>_.
        bind_io (datetime_now env) (\<lambda>ts.
        ret \<lparr>response = response', query = q, qr_user_id = uid, qr_timestamp = ts,
             context_chunks_used = Some (length context_chunks), error = None,
             status = lit ''success''\<rparr>))))))
       (\<lambda>e.
        bind_io (datetime_now env) (\<lambda>ts.
        ret \<lparr>response = lit ''I apologize, but I encountered an error processing your query: ''
                          @ str_of e,
             query = q, qr_user_id = uid, qr_timestamp = ts, context_chunks_used = None,
             error = Some (str_of e), status = lit ''error''\<rparr>))"

section \<open>QueryHandler: streaming\<close>

text \<open>
  \<open>_generate_mock_streaming_response\<close>. It builds \<open>full_response\<close> with the statements
  of \<open>_generate_mock_response\<close>, then sends it three words at a time. The pause of
  \<open>asyncio.sleep(0.1)\<close> between two chunks changes nothing that is modelled here.
\<close>

definition generate_mock_streaming_response ::
  "env \<Rightarrow> pystr \<Rightarrow> retrieved_chunk list \<Rightarrow> unit io" where
  "generate_mock_streaming_response env q context_chunks =
     try_except
       (let full_response = generate_mock_response q context_chunks;
            words = py_split full_response
        in bind_io (send_message env (lit ''generating'') (lit ''Generating response...'')) (\<lambda>_.
           bind_io (for_each (py_range 0 (length words) 3) (\<lambda>i.
                      send_content env (lit ''chunk'')
                        (py_join (lit '' '') (py_slice words (int i) (int i + 3)) @ lit '' '')))
             (\<lambda>_.
           bind_io (send_message env (lit ''complete'') (lit ''Response complete'')) (\<lambda>_.
           add_to_history env full_response (lit ''assistant'') None))))
       (\<lambda>e. send_message env (lit ''error'')
               (lit ''Sorry, I'm having trouble generating a response right now.''))"

text \<open>The \<open>async for chunk in stream\<close> loop, returning \<open>full_response\<close>.\<close>

fun stream_loop :: "env \<Rightarrow> stream_item list \<Rightarrow> pystr \<Rightarrow> pystr io" where
  "stream_loop env [] full_response w = (Inr full_response, w)"
| "stream_loop env (StreamFailure e # items) full_response w = (Inl e, w)"
| "stream_loop env (Delta None # items) full_response w = stream_loop env items full_response w"
| "stream_loop env (Delta (Some content) # items) full_response w =
     (case send_content env (lit ''chunk'') content w of
        (Inl e, w') \<Rightarrow> (Inl e, w')
      | (Inr u, w') \<Rightarrow> stream_loop env items (full_response @ content) w')"

definition generate_streaming_response ::
  "env \<Rightarrow> pystr \<Rightarrow> retrieved_chunk list \<Rightarrow> unit io" where
  "generate_streaming_response env q context_chunks =
     try_except
       (case openai_client env of
          None \<Rightarrow> generate_mock_streaming_response env q context_chunks
        | Some client \<Rightarrow>
            (let prompt = create_tutor_prompt q (build_context_text context_chunks) []
             in bind_io (send_message env (lit ''generating'') (lit ''Generating response...''))
                  (\<lambda>_.
                bind_io (of_result (completion_stream client prompt)) (\<lambda>stream.
                bind_io (stream_loop env stream []) (\<lambda>full_response.
                bind_io (send_message env (lit ''complete'') (lit ''Response complete'')) (\<lambda>_.
                add_to_history env full_response (lit ''assistant'') None))))))
       (\<lambda>e. generate_mock_streaming_response env q context_chunks)"

definition process_query_streaming :: "env \<Rightarrow> pystr \<Rightarrow> pystr option \<Rightarrow> unit io" where
  "process_query_streaming env q uid =
     try_except
       (bind_io (add_to_history env q (lit ''user'') uid) (\<lambda>_.
        bind_io (send_message env (lit ''context'') (lit ''Retrieving relevant information...''))
          (\<lambda>_.
        bind_io (ret (get_relevant_context env q 5)) (\<lambda>context_chunks.
        bind_io (send_message env (lit ''context_found'')
                   (lit ''Found '' @ str_nat (length context_chunks) @ lit '' relevant sections''))
          (\<lambda>_.
        generate_streaming_response env q context_chunks)))))
       (\<lambda>e. send_message env (lit ''error'')
               (lit ''I apologize, but I encountered an error processing your query: ''
                @ str_of e))"

text \<open>
  One iteration of the receive loop of \<open>websocket_endpoint\<close>, after \<open>json.loads\<close>:
  \<open>q\<close> is \<open>message_data["message"]\<close> and \<open>uid\<close> is
  \<open>message_data.get("user_id", "websocket_user")\<close>.
\<close>

definition websocket_endpoint :: "env \<Rightarrow> pystr \<Rightarrow> pystr option \<Rightarrow> unit io" where
  "websocket_endpoint env q uid =
     bind_io (send_message env (lit ''processing'') (lit ''Processing your question...'')) (\<lambda>_.
     process_query_streaming env q uid)"

section \<open>The initial state and an example environment\<close>

text \<open>The state after \<open>QueryHandler.__init__\<close>, before anything is sent.\<close>

definition initial_world :: world where
  "initial_world = \<lparr>conversation_history = [], clock = 0, sent = [], attempts = 0\<rparr>"

text \<open>
  An environment for concrete runs: no \<open>OPENAI_API_KEY\<close> (so no client), an empty
  vector database, a clock that always reads the same instant, and a connection that
  delivers every notification.
\<close>

definition example_env :: env where
  "example_env =
     \<lparr>now = (\<lambda>k. lit ''2024-01-01T00:00:00''),
      search_similar = (\<lambda>q n. Inr []),
      openai_client = None,
      title = (\<lambda>s. s),
      transport = (\<lambda>k. None)\<rparr>"

text \<open>
  A computation adds only entries of the set \<open>A\<close> to the history when, from every state,
  each entry of the history afterwards was there before or belongs to \<open>A\<close>.
\<close>

definition adds_only :: "history_entry set \<Rightarrow> 'a io \<Rightarrow> bool" where
  "adds_only A m = (\<forall>w. set (conversation_history (snd (m w))) \<subseteq> set (conversation_history w) \<union> A)"

text \<open>
  How a generation step that starts in the state \<open>w\<close> can end, \<open>res\<close> being its result and
  final state. It has sent only \<open>generating\<close> and \<open>chunk\<close> notifications and then either
  \<open>complete\<close>, with an assistant entry for no user appended to the history; or the
  \<open>error\<close> notification of \<open>_generate_mock_streaming_response\<close>, with the history
  unchanged; or it has raised, with the history unchanged.
\<close>

definition generation_outcome :: "world \<Rightarrow> (py_exception + unit) \<times> world \<Rightarrow> bool" where
  "generation_outcome w res =
     (\<exists>evs. sent (snd res) = sent w @ evs \<and>
        ((fst res = Inr ()
          \<and> (\<exists>mid c. evs = mid @ [c] \<and> n_type c = lit ''complete''
                \<and> set (map n_type mid) \<subseteq> {lit ''generating'', lit ''chunk''})
          \<and> (\<exists>msg ts. conversation_history (snd res) =
                 drop (length (conversation_history w) - 19)
                   (conversation_history w
                      @ [\<lparr>message = msg, role = lit ''assistant'', user_id = None,
                           timestamp = ts\<rparr>])))
         \<or> (fst res = Inr ()
          \<and> (\<exists>pre ts. evs = pre @ [\<lparr>n_type = lit ''error'',
                  n_message = Some (lit ''Sorry, I'm having trouble generating a response right now.''),
                  n_content = None, n_timestamp = ts\<rparr>]
                \<and> set (map n_type pre) \<subseteq> {lit ''generating'', lit ''chunk''})
          \<and> conversation_history (snd res) = conversation_history w)
         \<or> ((\<exists>e. fst res = Inl e)
          \<and> set (map n_type evs) \<subseteq> {lit ''generating'', lit ''chunk''}
          \<and> conversation_history (snd res) = conversation_history w)))"

section \<open>DocumentChunker: properties\<close>


lemma py_index_le: "py_index n i \<le> n"
  by (auto simp: py_index_def)

lemma py_index_nonneg: "0 \<le> i \<Longrightarrow> py_index n i = min (nat i) n"
  by (simp add: py_index_def)

lemma py_rfind_cases:
  "py_rfind s ch i j = - 1 \<or>
   (int (py_index (length s) i) \<le> py_rfind s ch i j \<and>
    py_rfind s ch i j < int (py_index (length s) j))"
proof (cases "filter (\<lambda>k. s ! k = ch) [py_index (length s) i ..< py_index (length s) j]")
  case Nil
  then show ?thesis by (simp add: py_rfind_def)
next
  case (Cons k ks)
  then have "last (k # ks) \<in> set (filter (\<lambda>k. s ! k = ch) [py_index (length s) i ..< py_index (length s) j])"
    by (metis last_in_set list.distinct(1))
  then have "py_index (length s) i \<le> last (k # ks) \<and> last (k # ks) < py_index (length s) j"
    by simp
  with Cons show ?thesis by (simp add: py_rfind_def Let_def)
qed

lemma chunk_end_cases:
  assumes "0 \<le> start" and "0 \<le> chunk_size self"
  shows "chunk_end self txt start = start + chunk_size self \<or>
         (start + 1 < chunk_end self txt start \<and> chunk_end self txt start \<le> int (length txt) \<and>
          start + chunk_size self - 199 \<le> chunk_end self txt start \<and>
          chunk_end self txt start \<le> start + chunk_size self)"
proof -
  define e where "e = start + chunk_size self"
  define ss where "ss = max start (e - 200)"
  define r where "r = py_rfind txt (of_char CHR ''.'') ss e"
  have ce: "chunk_end self txt start = (if e < int (length txt) then (if r > start then r + 1 else e) else e)"
    by (simp add: chunk_end_def Let_def e_def ss_def r_def)
  show ?thesis
  proof (cases "e < int (length txt) \<and> r > start")
    case False
    then show ?thesis using ce e_def by auto
  next
    case True
    from py_rfind_cases [of "txt" "of_char CHR ''.''" ss e] True assms
    have b: "int (py_index (length txt) ss) \<le> r" "r < int (py_index (length txt) e)"
      by (auto simp: r_def)
    have "0 \<le> ss" using assms by (simp add: ss_def)
    have "r < int (length txt)" using b(2) py_index_le [of "length txt" e] by linarith
    have "0 \<le> e" using assms by (simp add: e_def)
    then have "r < e" using b(2) True by (simp add: py_index_nonneg)
    have "ss \<le> r"
      using b(1) \<open>0 \<le> ss\<close> \<open>r < int (length txt)\<close> by (simp add: py_index_nonneg min_def split: if_splits)
    then have "e - 200 \<le> r" by (simp add: ss_def)
    with True ce \<open>r < int (length txt)\<close> \<open>r < e\<close> show ?thesis by (auto simp: e_def)
  qed
qed


lemma py_slice_nonempty:
  assumes "py_slice xs i j \<noteq> []" and "0 \<le> i" and "0 \<le> j"
  shows "i < j"
proof (rule ccontr)
  assume "\<not> i < j"
  then have "j \<le> i" by simp
  have "py_index (length xs) j \<le> py_index (length xs) i"
    using assms(2,3) \<open>j \<le> i\<close> by (auto simp: py_index_def min_def)
  then show False using assms(1) by (simp add: py_slice_def Let_def)
qed

lemma py_strip_Nil [simp]: "py_strip [] = []"
  by (simp add: py_strip_def)

lemma emit_chunk_inv:
  assumes "emit_chunk txt source start (chunk_end self txt start) cid chunks = (chunks', cid')"
    and "0 \<le> start" and "start < int (length txt)" and "0 \<le> chunk_size self"
    and "\<forall>c \<in> set chunks. (0 \<le> start_pos c \<and> start_pos c < end_pos c \<and> start_pos c < int (length txt) \<and>
        (end_pos c \<le> int (length txt) \<or> end_pos c = start_pos c + chunk_size self))"
  shows "\<forall>c \<in> set chunks'. (0 \<le> start_pos c \<and> start_pos c < end_pos c \<and> start_pos c < int (length txt) \<and>
        (end_pos c \<le> int (length txt) \<or> end_pos c = start_pos c + chunk_size self))"
proof (cases "py_strip (py_slice txt start (chunk_end self txt start)) = []")
  case True
  with assms show ?thesis by (simp add: emit_chunk_def)
next
  case False
  then have "py_slice txt start (chunk_end self txt start) \<noteq> []" by auto
  moreover from chunk_end_cases [OF assms(2) assms(4), of "txt"]
  have ce: "chunk_end self txt start \<le> int (length txt) \<or> chunk_end self txt start = start + chunk_size self"
    and "0 \<le> chunk_end self txt start"
    using assms(2,4) by auto
  ultimately have lt: "start < chunk_end self txt start"
    using assms(2) by (intro py_slice_nonempty [of "txt"]) auto
  note ce
  with False lt assms show ?thesis
    by (auto simp: emit_chunk_def Let_def)
qed

lemma chunk_loop_total:
  assumes cfg: "0 \<le> chunk_overlap self" "chunk_overlap self + 200 \<le> chunk_size self"
  shows "0 \<le> start \<Longrightarrow> \<forall>c \<in> set chunks. (0 \<le> start_pos c \<and> start_pos c < end_pos c \<and> start_pos c < int (length txt) \<and>
        (end_pos c \<le> int (length txt) \<or> end_pos c = start_pos c + chunk_size self)) \<Longrightarrow>
         \<exists>r. chunk_loop self txt source start cid chunks = Some r \<and> (\<forall>c \<in> set r. (0 \<le> start_pos c \<and> start_pos c < end_pos c \<and> start_pos c < int (length txt) \<and>
        (end_pos c \<le> int (length txt) \<or> end_pos c = start_pos c + chunk_size self)))"
proof (induction "nat (int (length txt) - start)" arbitrary: start cid chunks rule: less_induct)
  case less
  show ?case
  proof (cases "start < int (length txt)")
    case False
    then show ?thesis using less.prems by (subst chunk_loop.simps) simp
  next
    case True
    obtain chunks' cid' where em:
      "emit_chunk txt source start (chunk_end self txt start) cid chunks = (chunks', cid')"
      by (cases "emit_chunk txt source start (chunk_end self txt start) cid chunks") 
    have cs: "0 \<le> chunk_size self" using cfg by linarith
    have inv': "\<forall>c \<in> set chunks'. (0 \<le> start_pos c \<and> start_pos c < end_pos c \<and> start_pos c < int (length txt) \<and>
        (end_pos c \<le> int (length txt) \<or> end_pos c = start_pos c + chunk_size self))"
      using emit_chunk_inv [OF em less.prems(1) True cs less.prems(2)] .
    have adv: "start < chunk_end self txt start - chunk_overlap self"
      using chunk_end_cases [OF less.prems(1) cs, of "txt"] cfg by linarith
    show ?thesis
    proof (cases "int (length txt) \<le> chunk_end self txt start - chunk_overlap self")
      case True
      with \<open>start < int (length txt)\<close> em inv' show ?thesis
        by (subst chunk_loop.simps) simp
    next
      case False
      have "\<exists>r. chunk_loop self txt source (chunk_end self txt start - chunk_overlap self) cid' chunks' = Some r
              \<and> (\<forall>c \<in> set r. (0 \<le> start_pos c \<and> start_pos c < end_pos c \<and> start_pos c < int (length txt) \<and>
        (end_pos c \<le> int (length txt) \<or> end_pos c = start_pos c + chunk_size self)))"
        using adv \<open>start < int (length txt)\<close> less.prems(1) inv'
        by (intro less.hyps) auto
      with False \<open>start < int (length txt)\<close> em show ?thesis
        by (subst chunk_loop.simps) simp
    qed
  qed
qed


lemma set_total_chunks_pos:
  "c \<in> set (set_total_chunks chunks) \<Longrightarrow>
   \<exists>c' \<in> set chunks. start_pos c = start_pos c' \<and> end_pos c = end_pos c'"
  by (auto simp: set_total_chunks_def)

lemma chunk_text_total:
  assumes "0 \<le> chunk_overlap self" and "chunk_overlap self + 200 \<le> chunk_size self"
  shows "\<exists>chunks. chunk_text self txt source = Some chunks \<and>
           (\<forall>c \<in> set chunks. (0 \<le> start_pos c \<and> start_pos c < end_pos c \<and> start_pos c < int (length txt) \<and>
        (end_pos c \<le> int (length txt) \<or> end_pos c = start_pos c + chunk_size self)))"
proof (cases "py_strip txt = []")
  case True
  then show ?thesis by (simp add: chunk_text_def)
next
  case False
  from chunk_loop_total [OF assms, of 0 "[]" "txt" source 0]
  obtain r where r: "chunk_loop self txt source 0 0 [] = Some r"
    and inv: "\<forall>c \<in> set r. (0 \<le> start_pos c \<and> start_pos c < end_pos c \<and> start_pos c < int (length txt) \<and>
        (end_pos c \<le> int (length txt) \<or> end_pos c = start_pos c + chunk_size self))"
    by auto
  have "\<forall>c \<in> set (set_total_chunks r). (0 \<le> start_pos c \<and> start_pos c < end_pos c \<and> start_pos c < int (length txt) \<and>
        (end_pos c \<le> int (length txt) \<or> end_pos c = start_pos c + chunk_size self))"
  proof
    fix c assume "c \<in> set (set_total_chunks r)"
    then obtain c' where "c' \<in> set r" "start_pos c = start_pos c'" "end_pos c = end_pos c'"
      using set_total_chunks_pos by blast
    with inv show "(0 \<le> start_pos c \<and> start_pos c < end_pos c \<and> start_pos c < int (length txt) \<and>
        (end_pos c \<le> int (length txt) \<or> end_pos c = start_pos c + chunk_size self))" by simp
  qed
  with False r show ?thesis by (simp add: chunk_text_def)
qed

lemma chunk_text_short:
  assumes "py_strip txt \<noteq> []" and "0 \<le> chunk_overlap self"
    and "int (length txt) \<le> chunk_size self - chunk_overlap self"
  shows "chunk_text self txt source =
           Some [\<lparr>c_text = py_strip txt, start_pos = 0, end_pos = chunk_size self, chunk_id = 0,
                  metadata = \<lparr>md_chunk_size = length (py_strip txt), md_source = source,
                              md_total_chunks = 1\<rparr>\<rparr>]"
proof -
  have ne: "txt \<noteq> []" using assms(1) by auto
  have ce: "chunk_end self txt 0 = chunk_size self"
    using assms(2,3) by (simp add: chunk_end_def Let_def)
  have sl: "py_slice txt 0 (chunk_size self) = txt"
    using assms(2,3) by (simp add: py_slice_def py_index_def Let_def)
  have "chunk_loop self txt source 0 0 [] =
          Some [\<lparr>c_text = py_strip txt, start_pos = 0, end_pos = chunk_size self, chunk_id = 0,
                 metadata = \<lparr>md_chunk_size = length (py_strip txt), md_source = source,
                             md_total_chunks = 0\<rparr>\<rparr>]"
    using assms ne by (subst chunk_loop.simps) (simp add: ce sl emit_chunk_def Let_def)
  with assms(1) show ?thesis by (simp add: chunk_text_def set_total_chunks_def)
qed

lemma py_isspace_a: "\<not> py_isspace 97"
  by (simp add: py_isspace_def)

lemma py_strip_replicate_a: "py_strip (replicate n 97) = replicate n 97"
proof -
  have "dropWhile py_isspace (replicate n 97) = replicate n 97" for n
    by (cases n) (simp_all add: py_isspace_a)
  then show ?thesis by (simp add: py_strip_def)
qed

lemma chunk_text_801:
  "chunk_text default_chunker (replicate 801 (of_char CHR ''a'')) (lit ''text_input'') =
     Some [\<lparr>c_text = replicate 801 (of_char CHR ''a''), start_pos = 0, end_pos = 1000, chunk_id = 0,
            metadata = \<lparr>md_chunk_size = 801, md_source = lit ''text_input'',
                        md_total_chunks = 2\<rparr>\<rparr>,
           \<lparr>c_text = lit ''a'', start_pos = 800, end_pos = 1800, chunk_id = 1,
            metadata = \<lparr>md_chunk_size = 1, md_source = lit ''text_input'',
                        md_total_chunks = 2\<rparr>\<rparr>]"
proof -
  let ?t = "replicate 801 (97::nat)"
  have ce0: "chunk_end default_chunker ?t 0 = 1000"
    by (simp add: chunk_end_def default_chunker_def)
  have ce1: "chunk_end default_chunker ?t 800 = 1800"
    by (simp add: chunk_end_def default_chunker_def)
  have sl0: "py_slice ?t 0 1000 = ?t"
    by (simp add: py_slice_def py_index_def)
  have sl1: "py_slice ?t 800 1800 = [97]"
    by (simp add: py_slice_def py_index_def)
  have st1: "py_strip [97] = [97]"
    using py_strip_replicate_a [of 1] by simp
  have ov: "chunk_overlap default_chunker = 200"
    by (simp add: default_chunker_def)
  have "chunk_loop default_chunker ?t (lit ''text_input'') 0 0 [] =
     Some [\<lparr>c_text = ?t, start_pos = 0, end_pos = 1000, chunk_id = 0,
            metadata = \<lparr>md_chunk_size = 801, md_source = lit ''text_input'',
                        md_total_chunks = 0\<rparr>\<rparr>,
           \<lparr>c_text = [97], start_pos = 800, end_pos = 1800, chunk_id = 1,
            metadata = \<lparr>md_chunk_size = 1, md_source = lit ''text_input'',
                        md_total_chunks = 0\<rparr>\<rparr>]"
    apply (subst chunk_loop.simps)
    apply (simp add: ce0 sl0 ov emit_chunk_def py_strip_replicate_a)
    apply (subst chunk_loop.simps)
    apply (simp add: ce1 sl1 st1 ov emit_chunk_def)
    done
  moreover have "py_strip ?t \<noteq> []" by (simp add: py_strip_replicate_a)
  ultimately show ?thesis
    by (simp add: chunk_text_def set_total_chunks_def lit_def)
qed

lemma py_strip_Hi: "py_strip (lit '' Hi. '') = lit ''Hi.''"
  by (simp add: py_strip_def lit_def py_isspace_def)

text \<open>
  C9. With the default configuration (\<open>chunk_size = 1000\<close>, \<open>chunk_overlap = 200\<close>)
  \<open>chunk_text\<close> returns on every text: the loop is left after finitely many iterations.
\<close>

theorem chunk_text_terminates:
  "\<exists>chunks. chunk_text default_chunker txt source = Some chunks"
  using chunk_text_total [of default_chunker "txt" source]
  by (auto simp: default_chunker_def)




text \<open>
  C3, as the code has it. A text with non-empty trimmed content and
  \<open>len(text) \<le> chunk_size - chunk_overlap\<close> (800 by default) gives exactly one chunk,
  whose text is the trimmed input.
\<close>

theorem chunk_text_single_chunk:
  assumes "py_strip txt \<noteq> []" and "0 \<le> chunk_overlap self"
    and "int (length txt) \<le> chunk_size self - chunk_overlap self"
  shows "\<exists>c. chunk_text self txt source = Some [c] \<and> c_text c = py_strip txt"
  using chunk_text_short [OF assms] by simp

theorem chunk_text_single_chunk_witness:
  "py_strip (lit '' Hi. '') \<noteq> [] \<and> 0 \<le> chunk_overlap default_chunker
   \<and> int (length (lit '' Hi. '')) \<le> chunk_size default_chunker - chunk_overlap default_chunker
   \<and> (\<exists>c. chunk_text default_chunker (lit '' Hi. '') (lit ''text_input'') = Some [c]
          \<and> c_text c = lit ''Hi.'')"
proof -
  have a: "py_strip (lit '' Hi. '') \<noteq> []"
    by (simp add: py_strip_Hi) (simp add: lit_def)
  have b: "0 \<le> chunk_overlap default_chunker"
    by (simp add: default_chunker_def)
  have c: "int (length (lit '' Hi. '')) \<le> chunk_size default_chunker - chunk_overlap default_chunker"
    by (simp add: default_chunker_def lit_def)
  show ?thesis
    using chunk_text_single_chunk [OF a b c, of "lit ''text_input''"] a b c
    by (simp add: py_strip_Hi)
qed

text \<open>
  C3 as stated fails: a text of 801 letters is shorter than \<open>chunk_size = 1000\<close>, and
  \<open>chunk_text\<close> returns two chunks, the second being the last letter alone.
\<close>

theorem chunk_text_single_chunk_counterexample:
  "py_strip (replicate 801 (of_char CHR ''a'')) \<noteq> []
   \<and> int (length (replicate 801 (of_char CHR ''a'' :: nat))) < chunk_size default_chunker
   \<and> chunk_text default_chunker (replicate 801 (of_char CHR ''a'')) (lit ''text_input'') =
     Some [\<lparr>c_text = replicate 801 (of_char CHR ''a''), start_pos = 0, end_pos = 1000, chunk_id = 0,
            metadata = \<lparr>md_chunk_size = 801, md_source = lit ''text_input'',
                        md_total_chunks = 2\<rparr>\<rparr>,
           \<lparr>c_text = lit ''a'', start_pos = 800, end_pos = 1800, chunk_id = 1,
            metadata = \<lparr>md_chunk_size = 1, md_source = lit ''text_input'',
                        md_total_chunks = 2\<rparr>\<rparr>]"
  using chunk_text_801 py_strip_replicate_a [of 801]
  by (simp add: default_chunker_def)


section \<open>QueryHandler: history, retrieval and the single-shot answer\<close>


lemma last20_slice:
  "py_slice h (- 20) (int (length h)) = drop (length h - 20) h"
proof -
  have "nat (max 0 (int (length h) - 20)) = length h - 20" by arith
  then show ?thesis by (simp add: py_slice_def py_index_def Let_def)
qed

lemma add_to_history_eq:
  "add_to_history env msg rl uid w =
     (Inr (),
      w\<lparr>clock := Suc (clock w),
        conversation_history :=
          drop (length (conversation_history w) - 19)
            (conversation_history w
               @ [\<lparr>message = msg, role = rl, user_id = uid, timestamp = now env (clock w)\<rparr>])\<rparr>)"
proof -
  let ?h = "conversation_history w
               @ [\<lparr>message = msg, role = rl, user_id = uid, timestamp = now env (clock w)\<rparr>]"
  have a: "length ?h - 20 = length (conversation_history w) - 19" by simp
  have "(if length ?h > 20 then py_slice ?h (- 20) (int (length ?h)) else ?h)
          = drop (length ?h - 20) ?h"
    unfolding last20_slice by simp
  then have "(if length ?h > 20 then py_slice ?h (- 20) (int (length ?h)) else ?h)
          = drop (length (conversation_history w) - 19) ?h"
    unfolding a .
  then have ifeq: "(if length ?h > 20 then py_slice ?h (- 20) (int (length ?h)) else ?h)
          = drop (length (conversation_history w) - 19) ?h" .
  have "add_to_history env msg rl uid w =
     (Inr (),
      w\<lparr>clock := Suc (clock w),
        conversation_history :=
          (if length ?h > 20 then py_slice ?h (- 20) (int (length ?h)) else ?h)\<rparr>)"
    by (simp add: add_to_history_def bind_io_def datetime_now_def Let_def)
  then show ?thesis unfolding ifeq .
qed

lemma drop_last20_snoc:
  "drop (length (drop (length xs - 20) xs) - 19) (drop (length xs - 20) xs @ [e])
     = drop (length xs - 19) (xs @ [e])"
proof (cases "length xs \<le> 20")
  case True
  then show ?thesis by simp
next
  case False
  then have "length xs - 20 + 1 = length xs - 19" by arith
  with False show ?thesis by (simp add: add.commute)
qed

lemma fold_add_clock:
  "clock (fold (\<lambda>(m, r, u) w. snd (add_to_history env m r u w)) ops w) = clock w + length ops"
  by (induction ops arbitrary: w) (auto simp: add_to_history_eq)

lemma fold_add_history:
  assumes "length (conversation_history w) \<le> 20"
  shows "conversation_history (fold (\<lambda>(m, r, u) w. snd (add_to_history env m r u w)) ops w) =
           drop (length (conversation_history w) + length ops - 20)
             (conversation_history w
                @ map (\<lambda>(k, m, r, u). \<lparr>message = m, role = r, user_id = u, timestamp = now env k\<rparr>)
                    (List.enumerate (clock w) ops))"
proof (induction ops rule: rev_induct)
  case Nil
  then show ?case using assms by simp
next
  case (snoc op ops)
  obtain m r u where op: "op = (m, r, u)" by (cases op)
  define all where "all = conversation_history w
                @ map (\<lambda>(k, m, r, u). \<lparr>message = m, role = r, user_id = u, timestamp = now env k\<rparr>)
                    (List.enumerate (clock w) ops)"
  define w' where "w' = fold (\<lambda>(m, r, u) w. snd (add_to_history env m r u w)) ops w"
  define e where "e = \<lparr>message = m, role = r, user_id = u, timestamp = now env (clock w + length ops)\<rparr>"
  have len: "length all = length (conversation_history w) + length ops"
    by (simp add: all_def)
  have ih: "conversation_history w' = drop (length all - 20) all"
    using snoc by (simp add: w'_def all_def)
  have ck: "clock w' = clock w + length ops"
    unfolding w'_def by (rule fold_add_clock)
  have "conversation_history (snd (add_to_history env m r u w')) =
          drop (length (conversation_history w') - 19) (conversation_history w' @ [e])"
    unfolding add_to_history_eq [of env m r u w'] e_def ck by simp
  also have "\<dots> = drop (length all - 19) (all @ [e])"
    unfolding ih by (rule drop_last20_snoc)
  also have "length all - 19 = length (conversation_history w) + length (ops @ [op]) - 20"
    by (simp add: len)
  also have "all @ [e] = conversation_history w
                @ map (\<lambda>(k, m, r, u). \<lparr>message = m, role = r, user_id = u, timestamp = now env k\<rparr>)
                    (List.enumerate (clock w) (ops @ [op]))"
    by (simp add: all_def e_def op enumerate_append_eq)
  finally show ?case by (simp add: op w'_def)
qed

lemma add_to_history_length:
  "length (conversation_history (snd (add_to_history env m r u w))) \<le> 20"
  by (simp add: add_to_history_eq)


text \<open>
  C7. Starting from a history of at most 20 entries (the initial one is empty), after any
  sequence of appends the history has at most 20 entries, and it is exactly the last 20 of
  the old entries followed by the appended ones in insertion order: what is evicted is
  always the oldest entry, whoever wrote it.
\<close>

theorem history_bounded_oldest_evicted:
  assumes "length (conversation_history w) \<le> 20"
  shows "length (conversation_history
                   (fold (\<lambda>(m, r, u) w. snd (add_to_history env m r u w)) ops w)) \<le> 20
         \<and> conversation_history (fold (\<lambda>(m, r, u) w. snd (add_to_history env m r u w)) ops w) =
             drop (length (conversation_history w) + length ops - 20)
               (conversation_history w
                  @ map (\<lambda>(k, m, r, u).
                           \<lparr>message = m, role = r, user_id = u, timestamp = now env k\<rparr>)
                      (List.enumerate (clock w) ops))"
proof -
  have "length (drop (length (conversation_history w) + length ops - 20)
               (conversation_history w
                  @ map (\<lambda>(k, m, r, u).
                           \<lparr>message = m, role = r, user_id = u, timestamp = now env k\<rparr>)
                      (List.enumerate (clock w) ops))) \<le> 20"
    by simp
  then show ?thesis
    unfolding fold_add_history [OF assms] by simp
qed

theorem history_bounded_oldest_evicted_witness:
  "length (conversation_history
             (initial_world\<lparr>conversation_history :=
                replicate 20 \<lparr>message = lit ''hello'', role = lit ''user'',
                               user_id = Some (lit ''alice''), timestamp = lit ''t0''\<rparr>\<rparr>)) \<le> 20
   \<and> conversation_history
       (fold (\<lambda>(m, r, u) w. snd (add_to_history example_env m r u w))
          [(lit ''hi'', lit ''user'', Some (lit ''bob''))]
          (initial_world\<lparr>conversation_history :=
             replicate 20 \<lparr>message = lit ''hello'', role = lit ''user'',
                            user_id = Some (lit ''alice''), timestamp = lit ''t0''\<rparr>\<rparr>)) =
     replicate 19 \<lparr>message = lit ''hello'', role = lit ''user'',
                    user_id = Some (lit ''alice''), timestamp = lit ''t0''\<rparr>
     @ [\<lparr>message = lit ''hi'', role = lit ''user'', user_id = Some (lit ''bob''),
          timestamp = lit ''2024-01-01T00:00:00''\<rparr>]"
proof -
  let ?w = "initial_world\<lparr>conversation_history :=
                replicate 20 \<lparr>message = lit ''hello'', role = lit ''user'',
                               user_id = Some (lit ''alice''), timestamp = lit ''t0''\<rparr>\<rparr>"
  have h: "length (conversation_history ?w) \<le> 20" by simp
  show ?thesis
    using history_bounded_oldest_evicted
            [OF h, of example_env "[(lit ''hi'', lit ''user'', Some (lit ''bob''))]"]
    by (simp add: initial_world_def example_env_def enumerate_eq_zip)
qed

text \<open>
  C4. Of the chunks that the search returns, \<open>_get_relevant_context\<close> keeps, in order,
  exactly those that carry a distance below 0.8 (a chunk without a distance counts as 1.0
  and is dropped). The comparison of a binary floating-point distance with the constant
  \<open>0.8\<close> has the same outcome as the comparison of the real numbers, which is the one
  stated here.
\<close>

theorem relevance_filter:
  assumes "search_similar env q n = Inr retrieved"
  shows "get_relevant_context env q n =
           filter (\<lambda>c. case distance c of None \<Rightarrow> False | Some d \<Rightarrow> d < 0.8) retrieved"
  unfolding get_relevant_context_def assms sum.case
  by (rule filter_cong) (auto split: option.splits)

theorem relevance_filter_witness:
  "search_similar
     (example_env\<lparr>search_similar := (\<lambda>q n.
        Inr [\<lparr>r_text = Some (lit ''a''), r_filename = None, distance = Some 0.2\<rparr>,
             \<lparr>r_text = Some (lit ''b''), r_filename = None, distance = Some 0.79\<rparr>,
             \<lparr>r_text = Some (lit ''c''), r_filename = None, distance = Some 0.81\<rparr>,
             \<lparr>r_text = Some (lit ''d''), r_filename = None, distance = Some 1.0\<rparr>])\<rparr>)
     (lit ''What is gradient descent?'') 5 =
       Inr [\<lparr>r_text = Some (lit ''a''), r_filename = None, distance = Some 0.2\<rparr>,
            \<lparr>r_text = Some (lit ''b''), r_filename = None, distance = Some 0.79\<rparr>,
            \<lparr>r_text = Some (lit ''c''), r_filename = None, distance = Some 0.81\<rparr>,
            \<lparr>r_text = Some (lit ''d''), r_filename = None, distance = Some 1.0\<rparr>]
   \<and> get_relevant_context
     (example_env\<lparr>search_similar := (\<lambda>q n.
        Inr [\<lparr>r_text = Some (lit ''a''), r_filename = None, distance = Some 0.2\<rparr>,
             \<lparr>r_text = Some (lit ''b''), r_filename = None, distance = Some 0.79\<rparr>,
             \<lparr>r_text = Some (lit ''c''), r_filename = None, distance = Some 0.81\<rparr>,
             \<lparr>r_text = Some (lit ''d''), r_filename = None, distance = Some 1.0\<rparr>])\<rparr>)
     (lit ''What is gradient descent?'') 5 =
       [\<lparr>r_text = Some (lit ''a''), r_filename = None, distance = Some 0.2\<rparr>,
        \<lparr>r_text = Some (lit ''b''), r_filename = None, distance = Some 0.79\<rparr>]"
proof -
  let ?cs = "[\<lparr>r_text = Some (lit ''a''), r_filename = None, distance = Some 0.2\<rparr>,
             \<lparr>r_text = Some (lit ''b''), r_filename = None, distance = Some 0.79\<rparr>,
             \<lparr>r_text = Some (lit ''c''), r_filename = None, distance = Some 0.81\<rparr>,
             \<lparr>r_text = Some (lit ''d''), r_filename = None, distance = Some (1.0::real)\<rparr>]"
  let ?env = "example_env\<lparr>search_similar := (\<lambda>q n. Inr ?cs)\<rparr>"
  have h: "search_similar ?env (lit ''What is gradient descent?'') 5 = Inr ?cs" by simp
  show ?thesis
    using relevance_filter [OF h] by simp
qed


lemma generate_mock_response_eq:
  "generate_mock_response q ctx =
     mock_responses q (context_info ctx) ! (length q mod 4)
     @ educational_additions ! (length q mod 4)"
  by (simp add: generate_mock_response_def Let_def mock_responses_def educational_additions_def)

text \<open>
  C8, as the code has it. The template and the educational addition are chosen by the
  length of the query alone, but each template quotes the query: two queries of the same
  length get the same template and the same addition, each filled with its own query.
\<close>

theorem mock_template_by_length:
  assumes "length q1 = length q2"
  shows "\<exists>i<4. generate_mock_response q1 ctx =
                  mock_responses q1 (context_info ctx) ! i @ educational_additions ! i
              \<and> generate_mock_response q2 ctx =
                  mock_responses q2 (context_info ctx) ! i @ educational_additions ! i"
proof (intro exI conjI)
  show "length q2 mod 4 < 4" by simp
  show "generate_mock_response q1 ctx =
          mock_responses q1 (context_info ctx) ! (length q2 mod 4)
          @ educational_additions ! (length q2 mod 4)"
    using assms generate_mock_response_eq [of q1 ctx] by simp
  show "generate_mock_response q2 ctx =
          mock_responses q2 (context_info ctx) ! (length q2 mod 4)
          @ educational_additions ! (length q2 mod 4)"
    by (rule generate_mock_response_eq)
qed

theorem mock_template_by_length_witness:
  "length (lit ''ab'') = length (lit ''cd'')
   \<and> (\<exists>i<4. generate_mock_response (lit ''ab'') [] =
                mock_responses (lit ''ab'') (context_info []) ! i @ educational_additions ! i
            \<and> generate_mock_response (lit ''cd'') [] =
                mock_responses (lit ''cd'') (context_info []) ! i @ educational_additions ! i)"
proof -
  have h: "length (lit ''ab'') = length (lit ''cd'')" by (simp add: lit_def)
  show ?thesis
    using mock_template_by_length [OF h, of "[]"] h by simp
qed

text \<open>
  C8 as stated fails: \<open>ab\<close> and \<open>cd\<close> have the same length and get different answers.
\<close>

theorem mock_template_by_length_counterexample:
  "length (lit ''ab'') = length (lit ''cd'')
   \<and> generate_mock_response (lit ''ab'') [] \<noteq> generate_mock_response (lit ''cd'') []"
  by (simp add: generate_mock_response_eq mock_responses_def lit_def)

lemma process_query_eq:
  "\<exists>w'. process_query env q uid hist w =
     (Inr \<lparr>response = generate_llm_response env q (get_relevant_context env q 5) hist,
           query = q, qr_user_id = uid, qr_timestamp = now env (Suc (Suc (clock w))),
           context_chunks_used = Some (length (get_relevant_context env q 5)), error = None,
           status = lit ''success''\<rparr>, w')"
  by (simp add: process_query_def try_except_def bind_io_def ret_def add_to_history_eq
      datetime_now_def)


text \<open>
  C1, as the code has it. For every query string, optional user id and optional
  caller-supplied history, \<open>process_query\<close> returns a result and never raises. An exception
  of the vector search or of the generation provider is absorbed by the inner handlers
  (empty context, mock answer) and does not lead to an error result: the status is
  \<open>success\<close>, and \<open>context_chunks_used\<close> is the number of retrieved chunks that passed the
  relevance filter, which is 0 when the search raised.
\<close>

theorem process_query_returns:
  "\<exists>r w'. process_query env q uid hist w = (Inr r, w')
     \<and> status r = lit ''success'' \<and> error r = None \<and> query r = q \<and> qr_user_id r = uid
     \<and> context_chunks_used r = Some (length (get_relevant_context env q 5))
     \<and> response r = generate_llm_response env q (get_relevant_context env q 5) hist
     \<and> (\<forall>e. search_similar env q 5 = Inl e \<longrightarrow> context_chunks_used r = Some 0)
     \<and> (\<forall>client e.
           openai_client env = Some client \<longrightarrow>
           completion client
             (create_tutor_prompt q (build_context_text (get_relevant_context env q 5))
                (build_conversation_history env hist)) = Inl e \<longrightarrow>
           response r = generate_mock_response q (get_relevant_context env q 5))"
proof -
  obtain w' where
    "process_query env q uid hist w =
     (Inr \<lparr>response = generate_llm_response env q (get_relevant_context env q 5) hist,
           query = q, qr_user_id = uid, qr_timestamp = now env (Suc (Suc (clock w))),
           context_chunks_used = Some (length (get_relevant_context env q 5)), error = None,
           status = lit ''success''\<rparr>, w')"
    using process_query_eq by blast
  moreover have "search_similar env q 5 = Inl e \<Longrightarrow> get_relevant_context env q 5 = []" for e
    by (simp add: get_relevant_context_def)
  moreover have "openai_client env = Some client \<Longrightarrow>
           completion client
             (create_tutor_prompt q (build_context_text (get_relevant_context env q 5))
                (build_conversation_history env hist)) = Inl e \<Longrightarrow>
           generate_llm_response env q (get_relevant_context env q 5) hist
             = generate_mock_response q (get_relevant_context env q 5)" for client e
    by (simp add: generate_llm_response_def)
  ultimately show ?thesis by auto
qed

theorem process_query_returns_witness:
  "openai_client
     (example_env\<lparr>openai_client :=
        Some \<lparr>completion = (\<lambda>p. Inl (PyException (lit ''timeout''))),
              completion_stream = (\<lambda>p. Inl (PyException (lit ''timeout'')))\<rparr>\<rparr>)
     = Some \<lparr>completion = (\<lambda>p. Inl (PyException (lit ''timeout''))),
             completion_stream = (\<lambda>p. Inl (PyException (lit ''timeout'')))\<rparr>
   \<and> (\<exists>r w'. process_query
         (example_env\<lparr>openai_client :=
            Some \<lparr>completion = (\<lambda>p. Inl (PyException (lit ''timeout''))),
                  completion_stream = (\<lambda>p. Inl (PyException (lit ''timeout'')))\<rparr>\<rparr>)
         (lit ''hi'') None None initial_world = (Inr r, w')
        \<and> status r = lit ''success'' \<and> context_chunks_used r = Some 0
        \<and> response r = generate_mock_response (lit ''hi'') [])"
proof -
  let ?client = "\<lparr>completion = (\<lambda>p. Inl (PyException (lit ''timeout''))),
              completion_stream = (\<lambda>p. Inl (PyException (lit ''timeout'')))\<rparr>"
  let ?env = "example_env\<lparr>openai_client := Some ?client\<rparr>"
  have ctx: "get_relevant_context ?env (lit ''hi'') 5 = []"
    by (simp add: get_relevant_context_def example_env_def)
  have cl: "openai_client ?env = Some ?client" by simp
  have raises: "completion ?client
             (create_tutor_prompt (lit ''hi'')
                (build_context_text (get_relevant_context ?env (lit ''hi'') 5))
                (build_conversation_history ?env None)) = Inl (PyException (lit ''timeout''))"
    by simp
  from process_query_returns [of ?env "lit ''hi''" None None initial_world]
  obtain r w' where
    "process_query ?env (lit ''hi'') None None initial_world = (Inr r, w')"
    "status r = lit ''success''"
    "context_chunks_used r = Some (length (get_relevant_context ?env (lit ''hi'') 5))"
    "\<forall>client e.
           openai_client ?env = Some client \<longrightarrow>
           completion client
             (create_tutor_prompt (lit ''hi'')
                (build_context_text (get_relevant_context ?env (lit ''hi'') 5))
                (build_conversation_history ?env None)) = Inl e \<longrightarrow>
           response r = generate_mock_response (lit ''hi'') (get_relevant_context ?env (lit ''hi'') 5)"
    by blast
  with cl raises have
    "process_query ?env (lit ''hi'') None None initial_world = (Inr r, w')
        \<and> status r = lit ''success'' \<and> context_chunks_used r = Some 0
        \<and> response r = generate_mock_response (lit ''hi'') []"
    unfolding ctx by auto
  with cl show ?thesis by blast
qed

text \<open>
  C1 as stated fails: here the vector search raises, an internal exception, and the
  result has status \<open>success\<close>, not \<open>error\<close>.
\<close>

theorem process_query_returns_counterexample:
  "search_similar
     (example_env\<lparr>search_similar := (\<lambda>q n. Inl (PyException (lit ''unavailable'')))\<rparr>)
     (lit ''hi'') 5 = Inl (PyException (lit ''unavailable''))
   \<and> map_sum str_of status
       (fst (process_query
          (example_env\<lparr>search_similar := (\<lambda>q n. Inl (PyException (lit ''unavailable'')))\<rparr>)
          (lit ''hi'') None None initial_world)) = Inr (lit ''success'')
   \<and> lit ''success'' \<noteq> lit ''error''"
proof -
  let ?env = "example_env\<lparr>search_similar := (\<lambda>q n. Inl (PyException (lit ''unavailable'')))\<rparr>"
  obtain r w' where "process_query ?env (lit ''hi'') None None initial_world = (Inr r, w')"
    and "status r = lit ''success''"
    using process_query_eq [of ?env "lit ''hi''" None None initial_world] by auto
  then show ?thesis by (simp add: lit_def)
qed


section \<open>QueryHandler: streaming with a working connection\<close>


lemma py_join_append:
  "xs \<noteq> [] \<Longrightarrow> ys \<noteq> [] \<Longrightarrow> py_join sep (xs @ ys) = py_join sep xs @ sep @ py_join sep ys"
proof (induction sep xs rule: py_join.induct)
  case (1 sep)
  then show ?case by simp
next
  case (2 sep w)
  then show ?case by (cases ys) simp_all
next
  case (3 sep w v ws)
  then show ?case by simp
qed

lemma py_slice_three: "py_slice xs (int a) (int a + 3) = take 3 (drop a xs)"
proof -
  have "py_index (length xs) (int a) = min a (length xs)"
    by (simp add: py_index_def)
  moreover have "py_index (length xs) (int a + 3) = min (a + 3) (length xs)"
    by (simp add: py_index_def nat_add_distrib)
  ultimately show ?thesis
    by (cases "a \<le> length xs") (simp_all add: py_slice_def Let_def min_def)
qed

lemma py_range_three:
  "py_range 0 n 3 = (if n = 0 then [] else 0 # map (\<lambda>i. i + 3) (py_range 0 (n - 3) 3))"
proof (cases "n = 0")
  case True
  then show ?thesis by (simp add: py_range_def)
next
  case False
  then have d: "(n + 3 - 1) div 3 = Suc ((n - 3 + 3 - 1) div 3)" by arith
  have "map (\<lambda>j. j * 3) [0 ..< Suc m] = 0 # map (\<lambda>i. i + 3) (map (\<lambda>j. j * 3) [0 ..< m])" for m :: nat
    by (simp add: upt_conv_Cons map_Suc_upt [symmetric] del: upt_Suc)
  with False d show ?thesis by (simp add: py_range_def del: upt_Suc)
qed

lemma concat_groups_take:
  "ws \<noteq> [] \<Longrightarrow>
   concat (map (\<lambda>i. py_join sep (take 3 (drop i ws)) @ sep) (py_range 0 (length ws) 3))
     = py_join sep ws @ sep"
proof (induction "length ws" arbitrary: ws rule: less_induct)
  case less
  let ?g = "\<lambda>ws i. py_join sep (take 3 (drop i ws)) @ sep"
  have n: "length ws \<noteq> 0" using less.prems by simp
  have rest: "map (?g ws) (map (\<lambda>i. i + 3) (py_range 0 (length ws - 3) 3))
                = map (?g (drop 3 ws)) (py_range 0 (length (drop 3 ws)) 3)"
    by (simp add: comp_def)
  have "py_range 0 (length ws) 3 = 0 # map (\<lambda>i. i + 3) (py_range 0 (length ws - 3) 3)"
    using n py_range_three [of "length ws"] by simp
  then have "concat (map (?g ws) (py_range 0 (length ws) 3))
                 = ?g ws 0 @ concat (map (?g ws) (map (\<lambda>i. i + 3) (py_range 0 (length ws - 3) 3)))"
    by simp
  then have split: "concat (map (?g ws) (py_range 0 (length ws) 3))
                 = py_join sep (take 3 ws) @ sep
                   @ concat (map (?g (drop 3 ws)) (py_range 0 (length (drop 3 ws)) 3))"
    unfolding rest by simp
  show ?case
  proof (cases "drop 3 ws = []")
    case True
    then have "py_range 0 (length (drop 3 ws)) 3 = []" by (simp add: py_range_def)
    moreover from True have "take 3 ws = ws" by simp
    ultimately show ?thesis using split by simp
  next
    case False
    then have "length (drop 3 ws) < length ws" by simp
    from less.hyps [OF this False]
    have "concat (map (?g (drop 3 ws)) (py_range 0 (length (drop 3 ws)) 3))
            = py_join sep (drop 3 ws) @ sep" .
    moreover have "take 3 ws \<noteq> []" using less.prems by (cases ws) simp_all
    then have "py_join sep (take 3 ws @ drop 3 ws)
                 = py_join sep (take 3 ws) @ sep @ py_join sep (drop 3 ws)"
      using False by (rule py_join_append)
    ultimately show ?thesis using split by simp
  qed
qed

lemma concat_groups:
  "ws \<noteq> [] \<Longrightarrow>
   concat (map (\<lambda>i. py_join sep (py_slice ws (int i) (int i + 3)) @ sep)
             (py_range 0 (length ws) 3)) = py_join sep ws @ sep"
  using concat_groups_take [of ws sep] by (simp add: py_slice_three)

lemma split_from_nonempty:
  "cur \<noteq> [] \<or> (\<exists>c \<in> set s. \<not> py_isspace c) \<Longrightarrow> split_from cur s \<noteq> []"
  by (induction s arbitrary: cur) auto

lemma mock_response_head:
  "\<exists>c rest. generate_mock_response q ctx = c # rest \<and> \<not> py_isspace c"
proof -
  have "length q mod 4 < 4" by simp
  then consider "length q mod 4 = 0" | "length q mod 4 = 1" | "length q mod 4 = 2"
    | "length q mod 4 = 3" by linarith
  then show ?thesis
    by cases (simp_all add: generate_mock_response_eq mock_responses_def lit_def py_isspace_def)
qed

lemma mock_words_nonempty: "py_split (generate_mock_response q ctx) \<noteq> []"
proof -
  obtain c rest where "generate_mock_response q ctx = c # rest" "\<not> py_isspace c"
    using mock_response_head by blast
  then show ?thesis
    unfolding py_split_def by (intro split_from_nonempty) auto
qed


lemma map_filter_append:
  "List.map_filter f (xs @ ys) = List.map_filter f xs @ List.map_filter f ys"
  by (simp add: List.map_filter_def)

lemma send_message_ok:
  assumes "\<forall>k. transport env k = None"
  shows "send_message env typ msg w =
     (Inr (),
      w\<lparr>clock := Suc (clock w),
        sent := sent w @ [\<lparr>n_type = typ, n_message = Some msg, n_content = None,
                           n_timestamp = now env (clock w)\<rparr>],
        attempts := Suc (attempts w)\<rparr>)"
  using assms
  by (simp add: send_message_def bind_io_def datetime_now_def send_personal_message_def)

lemma send_content_ok:
  assumes "\<forall>k. transport env k = None"
  shows "send_content env typ content w =
     (Inr (),
      w\<lparr>clock := Suc (clock w),
        sent := sent w @ [\<lparr>n_type = typ, n_message = None, n_content = Some content,
                           n_timestamp = now env (clock w)\<rparr>],
        attempts := Suc (attempts w)\<rparr>)"
  using assms
  by (simp add: send_content_def bind_io_def datetime_now_def send_personal_message_def)

lemma for_each_send_ok:
  assumes "\<forall>k. transport env k = None"
  shows "\<exists>w'. for_each xs (\<lambda>x. send_content env typ (f x)) w = (Inr (), w')
           \<and> conversation_history w' = conversation_history w
           \<and> map n_type (sent w') = map n_type (sent w) @ replicate (length xs) typ
           \<and> List.map_filter n_content (sent w') = List.map_filter n_content (sent w) @ map f xs"
proof (induction xs arbitrary: w)
  case Nil
  then show ?case by simp
next
  case (Cons x xs)
  let ?w1 = "w\<lparr>clock := Suc (clock w),
        sent := sent w @ [\<lparr>n_type = typ, n_message = None, n_content = Some (f x),
                           n_timestamp = now env (clock w)\<rparr>],
        attempts := Suc (attempts w)\<rparr>"
  from Cons [of ?w1] obtain w' where
    "for_each xs (\<lambda>x. send_content env typ (f x)) ?w1 = (Inr (), w')"
    "conversation_history w' = conversation_history ?w1"
    "map n_type (sent w') = map n_type (sent ?w1) @ replicate (length xs) typ"
    "List.map_filter n_content (sent w') = List.map_filter n_content (sent ?w1) @ map f xs"
    by blast
  moreover have "send_content env typ (f x) w = (Inr (), ?w1)"
    by (rule send_content_ok [OF assms])
  ultimately show ?case
    by (simp add: map_filter_append replicate_app_Cons_same)
qed

lemma mock_streaming_ok:
  assumes "\<forall>k. transport env k = None"
  shows "\<exists>w' n. generate_mock_streaming_response env q ctx w = (Inr (), w')
           \<and> map n_type (sent w') =
               map n_type (sent w) @ [lit ''generating'']
               @ replicate (length (py_range 0 (length (py_split (generate_mock_response q ctx))) 3))
                   (lit ''chunk'')
               @ [lit ''complete'']
           \<and> concat (List.map_filter n_content (sent w')) =
               concat (List.map_filter n_content (sent w))
               @ py_join (lit '' '') (py_split (generate_mock_response q ctx)) @ lit '' ''
           \<and> conversation_history w' =
               drop (length (conversation_history w) - 19)
                 (conversation_history w
                    @ [\<lparr>message = generate_mock_response q ctx, role = lit ''assistant'',
                         user_id = None, timestamp = now env n\<rparr>])"
proof -
  let ?words = "py_split (generate_mock_response q ctx)"
  let ?f = "\<lambda>i. py_join (lit '' '') (py_slice ?words (int i) (int i + 3)) @ lit '' ''"
  define w1 where "w1 = w\<lparr>clock := Suc (clock w),
        sent := sent w @ [\<lparr>n_type = lit ''generating'',
                           n_message = Some (lit ''Generating response...''), n_content = None,
                           n_timestamp = now env (clock w)\<rparr>],
        attempts := Suc (attempts w)\<rparr>"
  have s1: "send_message env (lit ''generating'') (lit ''Generating response...'') w = (Inr (), w1)"
    unfolding w1_def by (rule send_message_ok [OF assms])
  obtain w2 where loop:
    "for_each (py_range 0 (length ?words) 3) (\<lambda>i. send_content env (lit ''chunk'') (?f i)) w1
       = (Inr (), w2)"
    and h2: "conversation_history w2 = conversation_history w1"
    and t2: "map n_type (sent w2) =
               map n_type (sent w1) @ replicate (length (py_range 0 (length ?words) 3)) (lit ''chunk'')"
    and c2: "List.map_filter n_content (sent w2) =
               List.map_filter n_content (sent w1) @ map ?f (py_range 0 (length ?words) 3)"
    using for_each_send_ok [OF assms, of "py_range 0 (length ?words) 3" "lit ''chunk''" ?f w1]
    by blast
  define w3 where "w3 = w2\<lparr>clock := Suc (clock w2),
        sent := sent w2 @ [\<lparr>n_type = lit ''complete'',
                           n_message = Some (lit ''Response complete''), n_content = None,
                           n_timestamp = now env (clock w2)\<rparr>],
        attempts := Suc (attempts w2)\<rparr>"
  have s3: "send_message env (lit ''complete'') (lit ''Response complete'') w2 = (Inr (), w3)"
    unfolding w3_def by (rule send_message_ok [OF assms])
  define w4 where "w4 = snd (add_to_history env (generate_mock_response q ctx) (lit ''assistant'') None w3)"
  have s4: "add_to_history env (generate_mock_response q ctx) (lit ''assistant'') None w3
              = (Inr (), w4)"
    unfolding w4_def by (simp add: add_to_history_eq)
  have run: "generate_mock_streaming_response env q ctx w = (Inr (), w4)"
    unfolding generate_mock_streaming_response_def Let_def try_except_def bind_io_def
    by (simp add: s1 loop s3 s4)
  have types: "map n_type (sent w4) =
               map n_type (sent w) @ [lit ''generating'']
               @ replicate (length (py_range 0 (length ?words) 3)) (lit ''chunk'')
               @ [lit ''complete'']"
    unfolding w4_def add_to_history_eq by (simp add: w3_def t2) (simp add: w1_def)
  have "List.map_filter n_content (sent w4) =
          List.map_filter n_content (sent w) @ map ?f (py_range 0 (length ?words) 3)"
    unfolding w4_def add_to_history_eq
    by (simp add: w3_def map_filter_append c2) (simp add: w1_def List.map_filter_def)
  then have contents: "concat (List.map_filter n_content (sent w4)) =
               concat (List.map_filter n_content (sent w))
               @ py_join (lit '' '') ?words @ lit '' ''"
    using concat_groups [of "py_split (generate_mock_response q ctx)" "lit '' ''",
            OF mock_words_nonempty]
    by simp
  have hist: "conversation_history w4 =
               drop (length (conversation_history w) - 19)
                 (conversation_history w
                    @ [\<lparr>message = generate_mock_response q ctx, role = lit ''assistant'',
                         user_id = None, timestamp = now env (clock w3)\<rparr>])"
    unfolding w4_def add_to_history_eq by (simp add: w3_def h2) (simp add: w1_def)
  from run types contents hist show ?thesis by blast
qed







lemma streaming_prefix:
  assumes tok: "\<forall>k. transport env k = None"
  shows "\<exists>wc. conversation_history wc =
                 drop (length (conversation_history w) - 19)
                   (conversation_history w
                      @ [\<lparr>message = q, role = lit ''user'', user_id = uid,
                           timestamp = now env (clock w)\<rparr>])
             \<and> map n_type (sent wc) = map n_type (sent w) @ [lit ''context'', lit ''context_found'']
             \<and> List.map_filter n_content (sent wc) = List.map_filter n_content (sent w)
             \<and> (\<forall>w'. generate_streaming_response env q (get_relevant_context env q 5) wc
                         = (Inr (), w') \<longrightarrow>
                       process_query_streaming env q uid w = (Inr (), w'))"
proof -
  define wa where "wa = snd (add_to_history env q (lit ''user'') uid w)"
  have sa: "add_to_history env q (lit ''user'') uid w = (Inr (), wa)"
    unfolding wa_def by (simp add: add_to_history_eq)
  define wb where "wb = wa\<lparr>clock := Suc (clock wa),
        sent := sent wa @ [\<lparr>n_type = lit ''context'',
                            n_message = Some (lit ''Retrieving relevant information...''),
                            n_content = None, n_timestamp = now env (clock wa)\<rparr>],
        attempts := Suc (attempts wa)\<rparr>"
  have sb: "send_message env (lit ''context'') (lit ''Retrieving relevant information...'') wa
              = (Inr (), wb)"
    unfolding wb_def by (rule send_message_ok [OF tok])
  let ?found = "lit ''Found '' @ str_nat (length (get_relevant_context env q 5))
                  @ lit '' relevant sections''"
  define wc where "wc = wb\<lparr>clock := Suc (clock wb),
        sent := sent wb @ [\<lparr>n_type = lit ''context_found'', n_message = Some ?found,
                            n_content = None, n_timestamp = now env (clock wb)\<rparr>],
        attempts := Suc (attempts wb)\<rparr>"
  have sc: "send_message env (lit ''context_found'') ?found wb = (Inr (), wc)"
    unfolding wc_def by (rule send_message_ok [OF tok])
  have "conversation_history wc =
                 drop (length (conversation_history w) - 19)
                   (conversation_history w
                      @ [\<lparr>message = q, role = lit ''user'', user_id = uid,
                           timestamp = now env (clock w)\<rparr>])"
    by (simp add: wc_def wb_def) (simp add: wa_def add_to_history_eq)
  moreover have "map n_type (sent wc) = map n_type (sent w) @ [lit ''context'', lit ''context_found'']"
    by (simp add: wc_def wb_def) (simp add: wa_def add_to_history_eq)
  moreover have "List.map_filter n_content (sent wc) = List.map_filter n_content (sent w)"
    by (simp add: wc_def wb_def map_filter_append) (simp add: wa_def add_to_history_eq List.map_filter_def)
  moreover have "process_query_streaming env q uid w = (Inr (), w')"
    if "generate_streaming_response env q (get_relevant_context env q 5) wc = (Inr (), w')" for w'
    using that
    by (simp add: process_query_streaming_def try_except_def bind_io_def ret_def sa sb sc)
  ultimately show ?thesis by blast
qed

lemma py_range_nonempty: "0 < n \<Longrightarrow> 0 < length (py_range 0 n 3)"
  using py_range_three [of n] by simp

lemma process_query_streaming_nominal:
  assumes none: "openai_client env = None" and tok: "\<forall>k. transport env k = None"
  shows "\<exists>w' k n. process_query_streaming env q uid w = (Inr (), w') \<and> 0 < k
     \<and> map n_type (sent w') =
         map n_type (sent w) @ [lit ''context'', lit ''context_found'', lit ''generating'']
         @ replicate k (lit ''chunk'') @ [lit ''complete'']
     \<and> concat (List.map_filter n_content (sent w')) =
         concat (List.map_filter n_content (sent w))
         @ py_join (lit '' '') (py_split (generate_mock_response q (get_relevant_context env q 5)))
         @ lit '' ''
     \<and> conversation_history w' =
         drop (length (drop (length (conversation_history w) - 19)
                   (conversation_history w
                      @ [\<lparr>message = q, role = lit ''user'', user_id = uid,
                           timestamp = now env (clock w)\<rparr>])) - 19)
           (drop (length (conversation_history w) - 19)
                   (conversation_history w
                      @ [\<lparr>message = q, role = lit ''user'', user_id = uid,
                           timestamp = now env (clock w)\<rparr>])
            @ [\<lparr>message = generate_mock_response q (get_relevant_context env q 5),
                 role = lit ''assistant'', user_id = None, timestamp = now env n\<rparr>])"
proof -
  let ?ctx = "get_relevant_context env q 5"
  let ?M = "generate_mock_response q ?ctx"
  from streaming_prefix [OF tok, of w q uid] obtain wc where wc:
    "conversation_history wc =
                 drop (length (conversation_history w) - 19)
                   (conversation_history w
                      @ [\<lparr>message = q, role = lit ''user'', user_id = uid,
                           timestamp = now env (clock w)\<rparr>])"
    "map n_type (sent wc) = map n_type (sent w) @ [lit ''context'', lit ''context_found'']"
    "List.map_filter n_content (sent wc) = List.map_filter n_content (sent w)"
    "\<And>w'. generate_streaming_response env q ?ctx wc = (Inr (), w') \<Longrightarrow>
           process_query_streaming env q uid w = (Inr (), w')"
    by blast
  from mock_streaming_ok [OF tok, of q ?ctx wc] obtain w' n where m:
    "generate_mock_streaming_response env q ?ctx wc = (Inr (), w')"
    "map n_type (sent w') =
               map n_type (sent wc) @ [lit ''generating'']
               @ replicate (length (py_range 0 (length (py_split ?M)) 3)) (lit ''chunk'')
               @ [lit ''complete'']"
    "concat (List.map_filter n_content (sent w')) =
               concat (List.map_filter n_content (sent wc))
               @ py_join (lit '' '') (py_split ?M) @ lit '' ''"
    "conversation_history w' =
               drop (length (conversation_history wc) - 19)
                 (conversation_history wc
                    @ [\<lparr>message = ?M, role = lit ''assistant'',
                         user_id = None, timestamp = now env n\<rparr>])"
    by blast
  have "generate_streaming_response env q ?ctx wc = (Inr (), w')"
    by (simp add: generate_streaming_response_def try_except_def none m(1))
  then have run: "process_query_streaming env q uid w = (Inr (), w')" by (rule wc(4))
  have k: "0 < length (py_range 0 (length (py_split ?M)) 3)"
    using mock_words_nonempty [of q ?ctx] by (intro py_range_nonempty) simp
  from run k m(2,3,4) show ?thesis
    unfolding wc(1,2,3)
    by (intro exI [of _ w'] exI [of _ "length (py_range 0 (length (py_split ?M)) 3)"]
          exI [of _ n]) simp
qed

lemma websocket_endpoint_prefix:
  assumes tok: "\<forall>k. transport env k = None"
  shows "\<exists>w0. conversation_history w0 = conversation_history w \<and> clock w0 = Suc (clock w)
           \<and> map n_type (sent w0) = map n_type (sent w) @ [lit ''processing'']
           \<and> List.map_filter n_content (sent w0) = List.map_filter n_content (sent w)
           \<and> websocket_endpoint env q uid w = process_query_streaming env q uid w0"
proof -
  define w0 where "w0 = w\<lparr>clock := Suc (clock w),
        sent := sent w @ [\<lparr>n_type = lit ''processing'',
                            n_message = Some (lit ''Processing your question...''),
                            n_content = None, n_timestamp = now env (clock w)\<rparr>],
        attempts := Suc (attempts w)\<rparr>"
  have s0: "send_message env (lit ''processing'') (lit ''Processing your question...'') w
              = (Inr (), w0)"
    unfolding w0_def by (rule send_message_ok [OF tok])
  have "websocket_endpoint env q uid w = process_query_streaming env q uid w0"
    by (simp add: websocket_endpoint_def bind_io_def s0)
  moreover have "List.map_filter n_content (sent w0) = List.map_filter n_content (sent w)"
    by (simp add: w0_def map_filter_append)
  moreover have "conversation_history w0 = conversation_history w"
    and "clock w0 = Suc (clock w)"
    and "map n_type (sent w0) = map n_type (sent w) @ [lit ''processing'']"
    by (simp_all add: w0_def)
  ultimately show ?thesis by blast
qed



lemma split_from_no_space:
  "\<forall>c \<in> set cur. \<not> py_isspace c \<Longrightarrow> w \<in> set (split_from cur s) \<Longrightarrow> c \<in> set w
     \<Longrightarrow> \<not> py_isspace c"
proof (induction s arbitrary: cur)
  case Nil
  then show ?case by (auto split: if_splits)
next
  case (Cons a s)
  show ?case
  proof (cases "py_isspace a")
    case True
    with Cons.prems have "w = cur \<or> w \<in> set (split_from [] s)"
      by (auto split: if_splits)
    then show ?thesis
      using Cons.prems(1,3) Cons.IH [of "[]"] by auto
  next
    case False
    with Cons.prems have "w \<in> set (split_from (cur @ [a]) s)" by simp
    moreover have "\<forall>c \<in> set (cur @ [a]). \<not> py_isspace c"
      using Cons.prems(1) False by auto
    ultimately show ?thesis using Cons.IH [of "cur @ [a]"] Cons.prems(3) by blast
  qed
qed

lemma set_py_join:
  "c \<in> set (py_join sep ws) \<Longrightarrow> c \<in> set sep \<or> (\<exists>w \<in> set ws. c \<in> set w)"
  by (induction sep ws rule: py_join.induct) auto

lemma newline_in_mock: "10 \<in> set (generate_mock_response q ctx)"
proof -
  have "length q mod 4 < 4" by simp
  then consider "length q mod 4 = 0" | "length q mod 4 = 1" | "length q mod 4 = 2"
    | "length q mod 4 = 3" by linarith
  then have "10 \<in> set (educational_additions ! (length q mod 4))"
    by cases (simp_all add: educational_additions_def nl_def)
  then show ?thesis by (simp add: generate_mock_response_eq)
qed

lemma mock_not_rejoined:
  "py_join (lit '' '') (py_split (generate_mock_response q ctx)) @ lit '' ''
     \<noteq> generate_mock_response q ctx"
proof
  let ?M = "generate_mock_response q ctx"
  assume eq: "py_join (lit '' '') (py_split ?M) @ lit '' '' = ?M"
  have sp: "set (lit '' '') = {32}" by (simp add: lit_def)
  have "10 \<in> set (py_join (lit '' '') (py_split ?M) @ lit '' '')"
    unfolding eq by (rule newline_in_mock)
  then have "10 \<in> set (py_join (lit '' '') (py_split ?M))"
    using sp by auto
  then obtain w where "w \<in> set (py_split ?M)" "10 \<in> set w"
    using set_py_join [of 10 "lit '' ''" "py_split ?M"] sp by auto
  then have "\<not> py_isspace 10"
    unfolding py_split_def using split_from_no_space [of "[]" w ?M 10] by simp
  then show False by (simp add: py_isspace_def)
qed

lemma websocket_endpoint_nominal:
  assumes none: "openai_client env = None" and tok: "\<forall>k. transport env k = None"
  shows "\<exists>w' k. websocket_endpoint env q uid w = (Inr (), w') \<and> 0 < k
     \<and> map n_type (sent w') =
         map n_type (sent w)
         @ [lit ''processing'', lit ''context'', lit ''context_found'', lit ''generating'']
         @ replicate k (lit ''chunk'') @ [lit ''complete'']
     \<and> concat (List.map_filter n_content (sent w')) =
         concat (List.map_filter n_content (sent w))
         @ py_join (lit '' '') (py_split (generate_mock_response q (get_relevant_context env q 5)))
         @ lit '' ''"
proof -
  from websocket_endpoint_prefix [OF tok, of w q uid] obtain w0 where w0:
    "map n_type (sent w0) = map n_type (sent w) @ [lit ''processing'']"
    "List.map_filter n_content (sent w0) = List.map_filter n_content (sent w)"
    "websocket_endpoint env q uid w = process_query_streaming env q uid w0"
    by blast
  from process_query_streaming_nominal [OF none tok, of q uid w0] obtain w' k where r:
    "process_query_streaming env q uid w0 = (Inr (), w')" "0 < k"
    "map n_type (sent w') =
         map n_type (sent w0) @ [lit ''context'', lit ''context_found'', lit ''generating'']
         @ replicate k (lit ''chunk'') @ [lit ''complete'']"
    "concat (List.map_filter n_content (sent w')) =
         concat (List.map_filter n_content (sent w0))
         @ py_join (lit '' '') (py_split (generate_mock_response q (get_relevant_context env q 5)))
         @ lit '' ''"
    by blast
  show ?thesis
    using r unfolding w0 by (intro exI [of _ w'] exI [of _ k]) simp
qed

text \<open>
  C5, as the code has it. Without a generation provider and with every notification
  delivered, a streamed query emits \<open>processing\<close>, \<open>context\<close>, \<open>context_found\<close>,
  \<open>generating\<close>, one or more \<open>chunk\<close> events and then \<open>complete\<close>, and no \<open>error\<close>.
  The contents of the chunk events, concatenated, are the words of the mock answer joined
  by single spaces and followed by one more space.
\<close>

theorem streamed_mock_notifications:
  assumes "openai_client env = None" and "\<forall>k. transport env k = None"
  shows "\<exists>w' k. websocket_endpoint env q uid w = (Inr (), w') \<and> 0 < k
     \<and> map n_type (sent w') =
         map n_type (sent w)
         @ [lit ''processing'', lit ''context'', lit ''context_found'', lit ''generating'']
         @ replicate k (lit ''chunk'') @ [lit ''complete'']
     \<and> concat (List.map_filter n_content (sent w')) =
         concat (List.map_filter n_content (sent w))
         @ py_join (lit '' '') (py_split (generate_mock_response q (get_relevant_context env q 5)))
         @ lit '' ''"
  using assms by (rule websocket_endpoint_nominal)

theorem streamed_mock_notifications_witness:
  "openai_client example_env = None \<and> (\<forall>k. transport example_env k = None)
   \<and> (\<exists>w' k. websocket_endpoint example_env (lit ''What is gradient descent?'')
                (Some (lit ''websocket_user'')) initial_world = (Inr (), w') \<and> 0 < k
     \<and> map n_type (sent w') =
         [lit ''processing'', lit ''context'', lit ''context_found'', lit ''generating'']
         @ replicate k (lit ''chunk'') @ [lit ''complete'']
     \<and> concat (List.map_filter n_content (sent w')) =
         py_join (lit '' '')
           (py_split (generate_mock_response (lit ''What is gradient descent?'') []))
         @ lit '' '')"
proof -
  have a: "openai_client example_env = None" by (simp add: example_env_def)
  have b: "\<forall>k. transport example_env k = None" by (simp add: example_env_def)
  have c: "get_relevant_context example_env (lit ''What is gradient descent?'') 5 = []"
    by (simp add: get_relevant_context_def example_env_def)
  have d: "sent initial_world = []" by (simp add: initial_world_def)
  show ?thesis
    using streamed_mock_notifications
            [OF a b, of "lit ''What is gradient descent?''" "Some (lit ''websocket_user'')"
               initial_world]
      a b
    unfolding c d by (simp add: List.map_filter_def)
qed

text \<open>
  C5 as stated fails in its last part: for the query of the scenario the concatenated
  chunk contents differ from the mock answer (the answer has a paragraph break, the
  chunks have single spaces and a trailing one).
\<close>

theorem streamed_mock_notifications_counterexample:
  "openai_client example_env = None
   \<and> fst (websocket_endpoint example_env (lit ''What is gradient descent?'')
            (Some (lit ''websocket_user'')) initial_world) = Inr ()
   \<and> concat (List.map_filter n_content
        (sent (snd (websocket_endpoint example_env (lit ''What is gradient descent?'')
                      (Some (lit ''websocket_user'')) initial_world))))
       \<noteq> generate_mock_response (lit ''What is gradient descent?'')
            (get_relevant_context example_env (lit ''What is gradient descent?'') 5)"
proof -
  let ?q = "lit ''What is gradient descent?''"
  have a: "openai_client example_env = None" by (simp add: example_env_def)
  have b: "\<forall>k. transport example_env k = None" by (simp add: example_env_def)
  have d: "sent initial_world = []" by (simp add: initial_world_def)
  from websocket_endpoint_nominal [OF a b, of ?q "Some (lit ''websocket_user'')" initial_world]
  obtain w' where
    "websocket_endpoint example_env ?q (Some (lit ''websocket_user'')) initial_world = (Inr (), w')"
    "concat (List.map_filter n_content (sent w')) =
         concat (List.map_filter n_content (sent initial_world))
         @ py_join (lit '' '')
             (py_split (generate_mock_response ?q (get_relevant_context example_env ?q 5)))
         @ lit '' ''"
    by blast
  then show ?thesis
    using a mock_not_rejoined [of ?q "get_relevant_context example_env ?q 5"]
    by (simp add: d List.map_filter_def)
qed


section \<open>QueryHandler: streaming when retrieval or generation fails\<close>









section \<open>QueryHandler: what streaming records in the history\<close>


lemma adds_only_ret: "adds_only A (ret x)"
  by (simp add: adds_only_def ret_def)

lemma adds_only_of_result: "adds_only A (of_result r)"
  by (simp add: adds_only_def of_result_def)

lemma adds_only_datetime_now: "adds_only A (datetime_now env)"
  by (simp add: adds_only_def datetime_now_def)

lemma adds_only_send_personal_message: "adds_only A (send_personal_message env msg)"
  by (simp add: adds_only_def send_personal_message_def split: option.splits)

lemma adds_only_bind:
  assumes "adds_only A m" and "\<And>x. adds_only A (f x)"
  shows "adds_only A (bind_io m f)"
  unfolding adds_only_def
proof
  fix w
  obtain r w1 where m: "m w = (r, w1)" by (cases "m w")
  have h1: "set (conversation_history w1) \<subseteq> set (conversation_history w) \<union> A"
    using assms(1) m unfolding adds_only_def by (metis snd_conv)
  show "set (conversation_history (snd (bind_io m f w))) \<subseteq> set (conversation_history w) \<union> A"
  proof (cases r)
    case (Inl e)
    then show ?thesis using m h1 by (simp add: bind_io_def)
  next
    case (Inr x)
    have "set (conversation_history (snd (f x w1))) \<subseteq> set (conversation_history w1) \<union> A"
      using assms(2) [of x] unfolding adds_only_def by blast
    then show ?thesis using m h1 Inr by (auto simp: bind_io_def)
  qed
qed

lemma adds_only_try_except:
  assumes "adds_only A m" and "\<And>e. adds_only A (h e)"
  shows "adds_only A (try_except m h)"
  unfolding adds_only_def
proof
  fix w
  obtain r w1 where m: "m w = (r, w1)" by (cases "m w")
  have h1: "set (conversation_history w1) \<subseteq> set (conversation_history w) \<union> A"
    using assms(1) m unfolding adds_only_def by (metis snd_conv)
  show "set (conversation_history (snd (try_except m h w))) \<subseteq> set (conversation_history w) \<union> A"
  proof (cases r)
    case (Inr x)
    then show ?thesis using m h1 by (simp add: try_except_def)
  next
    case (Inl e)
    have "set (conversation_history (snd (h e w1))) \<subseteq> set (conversation_history w1) \<union> A"
      using assms(2) [of e] unfolding adds_only_def by blast
    then show ?thesis using m h1 Inl by (auto simp: try_except_def)
  qed
qed

lemma adds_only_send_message: "adds_only A (send_message env typ msg)"
  unfolding send_message_def
  by (intro adds_only_bind adds_only_datetime_now adds_only_send_personal_message)

lemma adds_only_send_content: "adds_only A (send_content env typ content)"
  unfolding send_content_def
  by (intro adds_only_bind adds_only_datetime_now adds_only_send_personal_message)

lemma for_each_history:
  assumes "\<And>x. adds_only A (body x)"
  shows "set (conversation_history (snd (for_each xs body w))) \<subseteq> set (conversation_history w) \<union> A"
proof (induction xs arbitrary: w)
  case Nil
  then show ?case by simp
next
  case (Cons x xs)
  obtain r w1 where b: "body x w = (r, w1)" by (cases "body x w")
  have h1: "set (conversation_history w1) \<subseteq> set (conversation_history w) \<union> A"
    using assms [of x] b unfolding adds_only_def by (metis snd_conv)
  show ?case
  proof (cases r)
    case (Inl e)
    then show ?thesis using b h1 by simp
  next
    case (Inr u)
    then show ?thesis using b h1 Cons [of w1] by auto
  qed
qed

lemma adds_only_for_each:
  "(\<And>x. adds_only A (body x)) \<Longrightarrow> adds_only A (for_each xs body)"
  unfolding adds_only_def [of A "for_each xs body"] using for_each_history by blast

lemma stream_loop_history:
  "set (conversation_history (snd (stream_loop env items acc w)))
     \<subseteq> set (conversation_history w) \<union> A"
proof (induction env items acc w rule: stream_loop.induct)
  case (4 env content items full_response w)
  obtain r w1 where s: "send_content env (lit ''chunk'') content w = (r, w1)"
    by (cases "send_content env (lit ''chunk'') content w")
  have h1: "set (conversation_history w1) \<subseteq> set (conversation_history w) \<union> A"
    using adds_only_send_content [of A env "lit ''chunk''" content] s
    unfolding adds_only_def by (metis snd_conv)
  show ?case
  proof (cases r)
    case (Inl e)
    then show ?thesis using s h1 by simp
  next
    case (Inr u)
    then show ?thesis using s h1 "4.IH" [OF s [symmetric] Inr] by auto
  qed
qed auto

lemma adds_only_stream_loop: "adds_only A (stream_loop env items acc)"
  unfolding adds_only_def using stream_loop_history by blast

lemma adds_only_add_to_history:
  assumes "\<And>ts. \<lparr>message = msg, role = rl, user_id = uid, timestamp = ts\<rparr> \<in> A"
  shows "adds_only A (add_to_history env msg rl uid)"
  unfolding adds_only_def
proof
  fix w :: world
  have "set (drop (length (conversation_history w) - 19)
               (conversation_history w
                 @ [\<lparr>message = msg, role = rl, user_id = uid, timestamp = now env (clock w)\<rparr>]))
          \<subseteq> set (conversation_history w
                 @ [\<lparr>message = msg, role = rl, user_id = uid, timestamp = now env (clock w)\<rparr>])"
    by (rule set_drop_subset)
  then show "set (conversation_history (snd (add_to_history env msg rl uid w)))
               \<subseteq> set (conversation_history w) \<union> A"
    using assms [of "now env (clock w)"] by (auto simp: add_to_history_eq)
qed

lemma adds_only_mock_streaming:
  assumes "\<And>msg ts. \<lparr>message = msg, role = lit ''assistant'', user_id = None, timestamp = ts\<rparr> \<in> A"
  shows "adds_only A (generate_mock_streaming_response env q ctx)"
  unfolding generate_mock_streaming_response_def Let_def
  by (intro adds_only_try_except adds_only_bind adds_only_send_message adds_only_for_each
        adds_only_send_content adds_only_add_to_history assms)

lemma adds_only_generate_streaming:
  assumes "\<And>msg ts. \<lparr>message = msg, role = lit ''assistant'', user_id = None, timestamp = ts\<rparr> \<in> A"
  shows "adds_only A (generate_streaming_response env q ctx)"
proof (cases "openai_client env")
  case None
  then show ?thesis
    unfolding generate_streaming_response_def
    by (simp add: adds_only_try_except adds_only_mock_streaming assms)
next
  case (Some client)
  then show ?thesis
    unfolding generate_streaming_response_def Let_def
    by (simp, intro adds_only_try_except adds_only_bind adds_only_send_message
          adds_only_of_result adds_only_stream_loop adds_only_add_to_history
          adds_only_mock_streaming assms)
qed

lemma adds_only_process_query_streaming:
  assumes "\<And>ts. \<lparr>message = q, role = lit ''user'', user_id = uid, timestamp = ts\<rparr> \<in> A"
    and "\<And>msg ts. \<lparr>message = msg, role = lit ''assistant'', user_id = None, timestamp = ts\<rparr> \<in> A"
  shows "adds_only A (process_query_streaming env q uid)"
  unfolding process_query_streaming_def
  by (intro adds_only_try_except adds_only_bind adds_only_send_message adds_only_ret
        adds_only_add_to_history adds_only_generate_streaming assms)


lemma example_streaming_history:
  "conversation_history (snd (process_query_streaming example_env (lit ''hi'') uid initial_world)) =
     [\<lparr>message = lit ''hi'', role = lit ''user'', user_id = uid,
       timestamp = lit ''2024-01-01T00:00:00''\<rparr>,
      \<lparr>message = generate_mock_response (lit ''hi'') [], role = lit ''assistant'',
       user_id = None, timestamp = lit ''2024-01-01T00:00:00''\<rparr>]"
proof -
  have a: "openai_client example_env = None" by (simp add: example_env_def)
  have b: "\<forall>k. transport example_env k = None" by (simp add: example_env_def)
  have c: "get_relevant_context example_env (lit ''hi'') 5 = []"
    by (simp add: get_relevant_context_def example_env_def)
  have nw: "now example_env n = lit ''2024-01-01T00:00:00''" for n
    by (simp add: example_env_def)
  have h0: "conversation_history initial_world = []" by (simp add: initial_world_def)
  from process_query_streaming_nominal [OF a b, of "lit ''hi''" uid initial_world]
  obtain w' n where
    "process_query_streaming example_env (lit ''hi'') uid initial_world = (Inr (), w')"
    "conversation_history w' =
         drop (length (drop (length (conversation_history initial_world) - 19)
                   (conversation_history initial_world
                      @ [\<lparr>message = lit ''hi'', role = lit ''user'', user_id = uid,
                           timestamp = now example_env (clock initial_world)\<rparr>])) - 19)
           (drop (length (conversation_history initial_world) - 19)
                   (conversation_history initial_world
                      @ [\<lparr>message = lit ''hi'', role = lit ''user'', user_id = uid,
                           timestamp = now example_env (clock initial_world)\<rparr>])
            @ [\<lparr>message = generate_mock_response (lit ''hi'')
                             (get_relevant_context example_env (lit ''hi'') 5),
                 role = lit ''assistant'', user_id = None, timestamp = now example_env n\<rparr>])"
    by (elim exE conjE) (rule that)
  then show ?thesis by (simp add: h0 c nw)
qed

text \<open>
  C10, as the code has it. An assistant entry that a streamed query adds to the history
  has \<open>user_id\<close> \<open>None\<close>; so for every non-empty user id \<open>u\<close> the result of
  \<open>get_conversation_history(u)\<close> does not contain it. (For the empty string the method
  returns the whole history.)
\<close>

theorem streaming_assistant_entries_anonymous:
  assumes "entry \<in> set (conversation_history (snd (process_query_streaming env q uid w)))"
    and "entry \<notin> set (conversation_history w)"
    and "role entry = lit ''assistant''"
  shows "user_id entry = None
         \<and> (\<forall>u. u \<noteq> [] \<longrightarrow>
               entry \<notin> set (get_conversation_history
                              (snd (process_query_streaming env q uid w)) (Some u)))"
proof -
  let ?A = "{e. message e = q \<and> role e = lit ''user'' \<and> user_id e = uid}
            \<union> {e. role e = lit ''assistant'' \<and> user_id e = None}"
  have "adds_only ?A (process_query_streaming env q uid)"
    by (rule adds_only_process_query_streaming) simp_all
  then have "entry \<in> set (conversation_history w) \<union> ?A"
    using assms(1) unfolding adds_only_def by blast
  moreover have "lit ''assistant'' \<noteq> lit ''user''" by (simp add: lit_def)
  ultimately have none: "user_id entry = None"
    using assms(2,3) by auto
  then show ?thesis
    by (auto simp: get_conversation_history_def truthy_def)
qed

theorem streaming_assistant_entries_anonymous_witness:
  "\<lparr>message = generate_mock_response (lit ''hi'') [], role = lit ''assistant'',
     user_id = None, timestamp = lit ''2024-01-01T00:00:00''\<rparr>
     \<in> set (conversation_history
              (snd (process_query_streaming example_env (lit ''hi'') (Some (lit ''alice''))
                      initial_world)))
   \<and> \<lparr>message = generate_mock_response (lit ''hi'') [], role = lit ''assistant'',
       user_id = None, timestamp = lit ''2024-01-01T00:00:00''\<rparr>
     \<notin> set (conversation_history initial_world)
   \<and> lit ''alice'' \<noteq> []
   \<and> \<lparr>message = generate_mock_response (lit ''hi'') [], role = lit ''assistant'',
       user_id = None, timestamp = lit ''2024-01-01T00:00:00''\<rparr>
     \<notin> set (get_conversation_history
              (snd (process_query_streaming example_env (lit ''hi'') (Some (lit ''alice''))
                      initial_world))
              (Some (lit ''alice'')))"
proof -
  let ?e = "\<lparr>message = generate_mock_response (lit ''hi'') [], role = lit ''assistant'',
     user_id = None, timestamp = lit ''2024-01-01T00:00:00''\<rparr>"
  let ?w' = "snd (process_query_streaming example_env (lit ''hi'') (Some (lit ''alice''))
                      initial_world)"
  have a: "?e \<in> set (conversation_history ?w')"
    by (simp add: example_streaming_history)
  have b: "?e \<notin> set (conversation_history initial_world)"
    by (simp add: initial_world_def)
  have c: "role ?e = lit ''assistant''" by simp
  have d: "lit ''alice'' \<noteq> []" by (simp add: lit_def)
  from streaming_assistant_entries_anonymous [OF a b c] d
  have "?e \<notin> set (get_conversation_history ?w' (Some (lit ''alice'')))" by blast
  with a b d show ?thesis by (intro conjI)
qed

text \<open>
  C10 as stated fails for the user id that is the empty string: it is not \<open>None\<close>, and
  \<open>get_conversation_history\<close> then returns the whole history, with the assistant answer
  of the streamed query in it.
\<close>

theorem streaming_assistant_entries_anonymous_counterexample:
  "Some (lit '''') \<noteq> None
   \<and> \<lparr>message = generate_mock_response (lit ''hi'') [], role = lit ''assistant'',
       user_id = None, timestamp = lit ''2024-01-01T00:00:00''\<rparr>
     \<in> set (get_conversation_history
              (snd (process_query_streaming example_env (lit ''hi'') (Some (lit ''alice''))
                      initial_world))
              (Some (lit '''')))"
  by (simp add: get_conversation_history_def truthy_def example_streaming_history)
     (simp add: lit_def)


end
